theory Spec2Isabelle
  imports Complex_Main "HOL-Library.AList"
begin

section \<open>Python string and sequence primitives\<close>

text \<open>
  Texts are lists of characters, of which HOL has 256: a character of the source text
  beyond that range has no counterpart here. \<open>py_index\<close> is the index adjustment that Python
  applies to both bounds of a slice \<^verbatim>\<open>s[i:j]\<close> and to the optional bounds of
  \<^verbatim>\<open>str.rfind\<close>: a negative bound counts from the end, and every bound is
  clamped into \<open>0..len(s)\<close>.
\<close>

definition py_index :: "nat \<Rightarrow> int \<Rightarrow> nat" where
  "py_index n i = (if i < 0 then nat (max 0 (int n + i)) else min n (nat i))"

definition slice :: "'a list \<Rightarrow> int \<Rightarrow> int \<Rightarrow> 'a list" where
  "slice xs i j =
     (let a = py_index (length xs) i; b = py_index (length xs) j
      in take (b - a) (drop a xs))"

text \<open>
  \<open>rfind_down text sub lo k\<close> tries the \<open>k\<close> candidate positions
  \<open>lo, \<dots>, lo + k - 1\<close> from the highest down; \<open>rfind\<close> is
  \<^verbatim>\<open>text.rfind(sub, i, j)\<close>: the highest position of an occurrence of \<open>sub\<close>
  lying wholly inside the adjusted range, or \<open>-1\<close>.
\<close>

primrec rfind_down :: "string \<Rightarrow> string \<Rightarrow> nat \<Rightarrow> nat \<Rightarrow> int" where
  "rfind_down text sub lo 0 = - 1"
| "rfind_down text sub lo (Suc k) =
     (if take (length sub) (drop (lo + k) text) = sub then int (lo + k)
      else rfind_down text sub lo k)"

definition rfind :: "string \<Rightarrow> string \<Rightarrow> int \<Rightarrow> int \<Rightarrow> int" where
  "rfind text sub i j =
     (let a = py_index (length text) i; b = py_index (length text) j
      in if b < a + length sub then - 1
         else rfind_down text sub a (Suc (b - a - length sub)))"

text \<open>
  \<^verbatim>\<open>str.isspace\<close> on the characters below 256: the ASCII controls 9 to 13 and
  28 to 31, the space, NEL (133) and the no-break space (160). \<open>strip\<close> is
  \<^verbatim>\<open>str.strip()\<close> without argument.
\<close>

definition isspace :: "char \<Rightarrow> bool" where
  "isspace c =
     (let n = (of_char c :: nat)
      in (9 \<le> n \<and> n \<le> 13) \<or> (28 \<le> n \<and> n \<le> 32) \<or> n = 133 \<or> n = 160)"

definition strip :: "string \<Rightarrow> string" where
  "strip s = rev (dropWhile isspace (rev (dropWhile isspace s)))"

section \<open>The chunker (document\_processor.py)\<close>

datatype meta_value = MStr string | MInt int

type_synonym metadata_dict = "(string \<times> meta_value) list"

record chunk =
  content :: string
  chunk_index :: int
  start_char :: int
  end_char :: int
  metadata :: metadata_dict

text \<open>The fields of \<^verbatim>\<open>settings\<close> (config.py) that the services below read.\<close>

record settings =
  settings_upload_dir :: string
  settings_chunk_size :: int
  settings_chunk_overlap :: int

definition default_settings :: settings where
  "default_settings =
     \<lparr>settings_upload_dir = ''uploads'', settings_chunk_size = 1000,
      settings_chunk_overlap = 200\<rparr>"

definition sentence_endings :: "string list" where
  "sentence_endings = [''.'', ''!'', ''?'', [CHR 0x0A, CHR 0x0A]]"

text \<open>The \<^verbatim>\<open>for ending in sentence_endings\<close> loop, started at \<open>best_break = -1\<close>.\<close>

definition best_break_of :: "string \<Rightarrow> int \<Rightarrow> int \<Rightarrow> int" where
  "best_break_of text search_start end_pos =
     fold (\<lambda>ending best_break.
             let pos = rfind text ending search_start end_pos
             in if pos > best_break then pos else best_break)
          sentence_endings (- 1)"

text \<open>The end position of the window that starts at \<open>start_pos\<close> (lines 151 to 166).\<close>

definition cut_end :: "string \<Rightarrow> int \<Rightarrow> int \<Rightarrow> int" where
  "cut_end text chunk_size start_pos =
     (let text_length = int (length text);
          end_pos = min (start_pos + chunk_size) text_length
      in if end_pos < text_length then
           (let search_start = max (end_pos - 100) start_pos;
                best_break = best_break_of text search_start end_pos
            in if best_break > start_pos then best_break + 1 else end_pos)
         else end_pos)"

definition new_chunk :: "string \<Rightarrow> string \<Rightarrow> int \<Rightarrow> int \<Rightarrow> int \<Rightarrow> chunk" where
  "new_chunk filename chunk_content idx start_pos end_pos =
     \<lparr>content = chunk_content, chunk_index = idx,
      start_char = start_pos, end_char = end_pos,
      metadata = [(''filename'', MStr filename),
                  (''chunk_size'', MInt (int (length chunk_content)))]\<rparr>"

text \<open>
  The \<^verbatim>\<open>while start_pos < text_length\<close> loop. Nothing in the source bounds the
  number of iterations, so the loop is a partial function: \<open>None\<close> stands for a run
  that never leaves the loop.
\<close>

partial_function (option) chunk_loop ::
  "string \<Rightarrow> string \<Rightarrow> int \<Rightarrow> int \<Rightarrow> int \<Rightarrow> int \<Rightarrow> chunk list \<Rightarrow> chunk list option"
where
  "chunk_loop text filename chunk_size chunk_overlap start_pos idx chunks =
     (if start_pos < int (length text) then
        (let end_pos = cut_end text chunk_size start_pos;
             chunk_content = strip (slice text start_pos end_pos);
             next_pos = max (start_pos + chunk_size - chunk_overlap) end_pos
         in if chunk_content \<noteq> [] then
              chunk_loop text filename chunk_size chunk_overlap next_pos (idx + 1)
                (chunks @ [new_chunk filename chunk_content idx start_pos end_pos])
            else chunk_loop text filename chunk_size chunk_overlap next_pos idx chunks)
      else Some chunks)"

declare chunk_loop.simps [code]

definition set_total_chunks :: "chunk list \<Rightarrow> chunk list" where
  "set_total_chunks chunks =
     map (\<lambda>c. c\<lparr>metadata :=
                  AList.update ''total_chunks'' (MInt (int (length chunks))) (metadata c)\<rparr>)
         chunks"

text \<open>
  \<^verbatim>\<open>if chunk_size is None: chunk_size = settings.chunk_size\<close>, and the same for the
  overlap: an argument left out takes the configured value.
\<close>

definition or_setting :: "int option \<Rightarrow> int \<Rightarrow> int" where
  "or_setting arg configured = (case arg of None \<Rightarrow> configured | Some n \<Rightarrow> n)"

definition chunk_text ::
  "settings \<Rightarrow> string \<Rightarrow> string \<Rightarrow> int option \<Rightarrow> int option \<Rightarrow> chunk list option"
where
  "chunk_text cfg text filename chunk_size_arg chunk_overlap_arg =
     (let chunk_size = or_setting chunk_size_arg (settings_chunk_size cfg);
          chunk_overlap = or_setting chunk_overlap_arg (settings_chunk_overlap cfg);
          text_length = int (length text)
      in if text_length \<le> chunk_size then
           Some [\<lparr>content = text, chunk_index = 0, start_char = 0, end_char = text_length,
                  metadata = [(''filename'', MStr filename), (''total_chunks'', MInt 1)]\<rparr>]
         else map_option set_total_chunks
                (chunk_loop text filename chunk_size chunk_overlap 0 0 []))"

section \<open>Exceptions, formatting and splitting\<close>

text \<open>
  A Python exception is its message: \<open>message_of e\<close> is \<^verbatim>\<open>str(e)\<close>. An operation that
  can raise returns \<open>error + 'a\<close>, with \<open>Inl\<close> for the exception.
\<close>

datatype error = Exception string

definition message_of :: "error \<Rightarrow> string" where
  "message_of e = (case e of Exception m \<Rightarrow> m)"

definition and_then :: "error + 'a \<Rightarrow> ('a \<Rightarrow> error + 'b) \<Rightarrow> error + 'b" where
  "and_then r f = (case r of Inl e \<Rightarrow> Inl e | Inr x \<Rightarrow> f x)"

text \<open>\<^verbatim>\<open>xs[i]\<close> for \<open>i \<ge> 0\<close> and \<^verbatim>\<open>d[key]\<close>, which raise when the element is missing.\<close>

definition py_nth :: "'a list \<Rightarrow> nat \<Rightarrow> error + 'a" where
  "py_nth xs i =
     (if i < length xs then Inr (xs ! i) else Inl (Exception ''list index out of range''))"

definition py_key :: "string \<Rightarrow> 'a option \<Rightarrow> error + 'a" where
  "py_key key entry =
     (case entry of None \<Rightarrow> Inl (Exception ([CHR 0x27] @ key @ [CHR 0x27])) | Some v \<Rightarrow> Inr v)"

text \<open>Runs \<open>f\<close> over the list in order and stops at the first exception.\<close>

primrec collect :: "('a \<Rightarrow> error + 'b) \<Rightarrow> 'a list \<Rightarrow> error + 'b list" where
  "collect f [] = Inr []"
| "collect f (x # xs) =
     (case f x of Inl e \<Rightarrow> Inl e
      | Inr y \<Rightarrow> (case collect f xs of Inl e \<Rightarrow> Inl e | Inr ys \<Rightarrow> Inr (y # ys)))"

definition newline :: string where
  "newline = [CHR 0x0A]"

text \<open>\<^verbatim>\<open>str(n)\<close> for a natural number.\<close>

fun str_nat :: "nat \<Rightarrow> string" where
  "str_nat n =
     (if n < 10 then [char_of (48 + n)] else str_nat (n div 10) @ [char_of (48 + n mod 10)])"

declare str_nat.simps [simp del]

text \<open>\<^verbatim>\<open>sep.join(parts)\<close>.\<close>

fun py_join :: "string \<Rightarrow> string list \<Rightarrow> string" where
  "py_join sep [] = []"
| "py_join sep [p] = p"
| "py_join sep (p # q # ps) = p @ sep @ py_join sep (q # ps)"

text \<open>\<^verbatim>\<open>s.split(c)\<close> for a separator of one character: never the empty list.\<close>

primrec split_on :: "char \<Rightarrow> string \<Rightarrow> string list" where
  "split_on c [] = [[]]"
| "split_on c (x # xs) =
     (if x = c then [] # split_on c xs
      else (case split_on c xs of [] \<Rightarrow> [[x]] | w # ws \<Rightarrow> (x # w) # ws))"

text \<open>
  \<^verbatim>\<open>s.split()\<close>: the maximal runs of characters that are not white space. The first
  argument of \<open>split_ws_from\<close> is the word in progress.
\<close>

primrec split_ws_from :: "string \<Rightarrow> string \<Rightarrow> string list" where
  "split_ws_from w [] = (if w = [] then [] else [w])"
| "split_ws_from w (c # cs) =
     (if isspace c then (if w = [] then split_ws_from [] cs else w # split_ws_from [] cs)
      else split_ws_from (w @ [c]) cs)"

definition split_ws :: "string \<Rightarrow> string list" where
  "split_ws s = split_ws_from [] s"

text \<open>\<^verbatim>\<open>s.lower()\<close> on the characters below 256.\<close>

definition lower_char :: "char \<Rightarrow> char" where
  "lower_char c =
     (let n = (of_char c :: nat)
      in if (65 \<le> n \<and> n \<le> 90) \<or> (192 \<le> n \<and> n \<le> 222 \<and> n \<noteq> 215) then char_of (n + 32)
         else c)"

definition lower :: "string \<Rightarrow> string" where
  "lower s = map lower_char s"

text \<open>
  \<^verbatim>\<open>s.replace(sub, '')\<close> for a non-empty \<open>sub\<close>: the occurrences are removed from the
  left, without overlap. The first argument bounds the number of steps, and the length of
  the string is always enough.
\<close>

primrec remove_all_steps :: "nat \<Rightarrow> string \<Rightarrow> string \<Rightarrow> string" where
  "remove_all_steps 0 sub s = s"
| "remove_all_steps (Suc k) sub s =
     (case s of [] \<Rightarrow> []
      | x # xs \<Rightarrow>
          if take (length sub) s = sub then remove_all_steps k sub (drop (length sub) s)
          else x # remove_all_steps k sub xs)"

definition remove_all :: "string \<Rightarrow> string \<Rightarrow> string" where
  "remove_all sub s = remove_all_steps (length s) sub s"

definition startswith :: "string \<Rightarrow> string \<Rightarrow> bool" where
  "startswith s pre = (take (length pre) s = pre)"

section \<open>Text extraction (document\_processor.py)\<close>

text \<open>
  The files as the readers see them. \<open>write_file\<close> is the write of
  \<^verbatim>\<open>save_uploaded_file\<close>; \<open>pdf_pages\<close> is what PyPDF2 extracts from each page of the
  file at a path; \<open>docx_body\<close> gives the paragraph texts of a DOCX file and, for each
  table, row by row, the cell texts; \<open>read_utf8\<close> and \<open>read_latin1\<close> read a text file
  under the two encodings.
\<close>

datatype utf8_read = Utf8_text string | Utf8_decode_error | Utf8_failure error

record file_store =
  write_file :: "string \<Rightarrow> string \<Rightarrow> error + unit"
  pdf_pages :: "string \<Rightarrow> error + string list"
  docx_body :: "string \<Rightarrow> error + (string list \<times> string list list list)"
  read_utf8 :: "string \<Rightarrow> utf8_read"
  read_latin1 :: "string \<Rightarrow> error + string"

text \<open>\<^verbatim>\<open>os.path.join(a, b)\<close> on a POSIX system.\<close>

definition path_join :: "string \<Rightarrow> string \<Rightarrow> string" where
  "path_join a b =
     (if startswith b ''/'' then b
      else if a = [] \<or> last a = CHR ''/'' then a @ b
      else a @ ''/'' @ b)"

definition file_extension_of :: "string \<Rightarrow> string" where
  "file_extension_of filename = lower (last (split_on CHR ''.'' filename))"

definition save_uploaded_file ::
  "file_store \<Rightarrow> string \<Rightarrow> string \<Rightarrow> string \<Rightarrow> string \<Rightarrow> error + string"
where
  "save_uploaded_file fs upload_dir file_id file_content filename =
     (let file_extension = file_extension_of filename;
          safe_filename = file_id @ ''.'' @ file_extension;
          file_path = path_join upload_dir safe_filename
      in case write_file fs file_path file_content of
           Inl e \<Rightarrow> Inl e
         | Inr u \<Rightarrow> Inr file_path)"

definition word_count_of :: "string \<Rightarrow> int" where
  "word_count_of s = int (length (split_ws s))"

definition extract_text_from_pdf :: "file_store \<Rightarrow> string \<Rightarrow> string \<times> metadata_dict" where
  "extract_text_from_pdf fs file_path =
     (case pdf_pages fs file_path of
        Inl e \<Rightarrow> ([], [(''page_count'', MInt 0), (''word_count'', MInt 0)])
      | Inr pages \<Rightarrow>
          (let page_blocks =
                 map (\<lambda>(page_num, page_text).
                        newline @ ''--- Page '' @ str_nat (page_num + 1) @ '' ---'' @ newline @
                        page_text @ newline)
                     (enumerate 0 pages);
               extracted = concat page_blocks
           in (extracted, [(''page_count'', MInt (int (length pages))),
                           (''word_count'', MInt (word_count_of extracted))])))"

definition extract_text_from_docx :: "file_store \<Rightarrow> string \<Rightarrow> string \<times> metadata_dict" where
  "extract_text_from_docx fs file_path =
     (case docx_body fs file_path of
        Inl e \<Rightarrow> ([], [(''paragraph_count'', MInt 0), (''table_count'', MInt 0),
                      (''word_count'', MInt 0)])
      | Inr (paragraphs, tables) \<Rightarrow>
          (let kept = filter (\<lambda>p. strip p \<noteq> []) paragraphs;
               paragraph_text = concat (map (\<lambda>p. p @ newline) kept);
               row_text = (\<lambda>row. concat (map (\<lambda>cell. cell @ '' '')
                                              (filter (\<lambda>cell. strip cell \<noteq> []) row)) @ newline);
               table_text = concat (map (\<lambda>table. concat (map row_text table)) tables);
               extracted = paragraph_text @ table_text
           in (extracted, [(''paragraph_count'', MInt (int (length kept))),
                           (''table_count'', MInt (int (length tables))),
                           (''word_count'', MInt (word_count_of extracted))])))"

definition txt_metadata :: "string \<Rightarrow> metadata_dict" where
  "txt_metadata extracted =
     [(''line_count'', MInt (int (length (split_on (CHR 0x0A) extracted)))),
      (''word_count'', MInt (word_count_of extracted)),
      (''char_count'', MInt (int (length extracted)))]"

definition txt_failed :: "string \<times> metadata_dict" where
  "txt_failed = ([], [(''line_count'', MInt 0), (''word_count'', MInt 0), (''char_count'', MInt 0)])"

definition extract_text_from_txt :: "file_store \<Rightarrow> string \<Rightarrow> string \<times> metadata_dict" where
  "extract_text_from_txt fs file_path =
     (case read_utf8 fs file_path of
        Utf8_text extracted \<Rightarrow> (extracted, txt_metadata extracted)
      | Utf8_decode_error \<Rightarrow>
          (case read_latin1 fs file_path of
             Inr extracted \<Rightarrow> (extracted, txt_metadata extracted)
           | Inl e \<Rightarrow> txt_failed)
      | Utf8_failure e \<Rightarrow> txt_failed)"

definition extract_text_from_file ::
  "file_store \<Rightarrow> string \<Rightarrow> string \<Rightarrow> string \<times> metadata_dict"
where
  "extract_text_from_file fs file_path filename =
     (let file_extension = file_extension_of filename
      in if file_extension = ''pdf'' then extract_text_from_pdf fs file_path
         else if file_extension = ''docx'' then extract_text_from_docx fs file_path
         else if file_extension \<in> set [''txt'', ''md''] then extract_text_from_txt fs file_path
         else ([], [(''error'', MStr (''Unsupported file type: '' @ file_extension))]))"

section \<open>The vector index adapter (vector\_store.py)\<close>

text \<open>
  The embedding model and the ChromaDB collection are outside the program: \<open>encode\<close> is
  \<^verbatim>\<open>embedding_model.encode(texts).tolist()\<close>, \<open>collection_add\<close> and \<open>collection_query\<close> are
  the two calls on the collection (the query with its embedding, \<^verbatim>\<open>n_results\<close> and the
  list of the \<^verbatim>\<open>$in\<close> filter, \<open>None\<close> without filter), \<open>generate_content\<close> is the
  generative model, giving \<^verbatim>\<open>response.text\<close>, and \<open>now_isoformat i\<close> is the clock read
  while chunk \<open>i\<close> is prepared. Each of them may raise. Scores and distances are real
  numbers here.
\<close>

type_synonym embedding = "real list"

record row_metadata =
  md_document_id :: "string option"
  md_filename :: "string option"
  md_chunk_index :: "int option"
  md_page_number :: "int option"

record query_result =
  qr_documents :: "string list list"
  qr_metadatas :: "row_metadata list list"
  qr_distances :: "real list list"

record services =
  encode :: "string list \<Rightarrow> error + embedding list"
  collection_add ::
    "string list \<Rightarrow> string list \<Rightarrow> embedding list \<Rightarrow> metadata_dict list \<Rightarrow> error + unit"
  collection_query :: "embedding list \<Rightarrow> int \<Rightarrow> string list option \<Rightarrow> error + query_result"
  generate_content :: "string \<Rightarrow> error + string"
  now_isoformat :: "nat \<Rightarrow> string"

text \<open>The dictionary display \<^verbatim>\<open>{..., **chunk.get("metadata", {})}\<close> of line 49.\<close>

definition chunk_metadata :: "services \<Rightarrow> string \<Rightarrow> string \<Rightarrow> nat \<Rightarrow> chunk \<Rightarrow> metadata_dict" where
  "chunk_metadata svc document_id filename i c =
     fold (\<lambda>(k, v). AList.update k v) (metadata c)
       [(''document_id'', MStr document_id), (''filename'', MStr filename),
        (''chunk_index'', MInt (chunk_index c)), (''start_char'', MInt (start_char c)),
        (''end_char'', MInt (end_char c)), (''created_at'', MStr (now_isoformat svc i))]"

definition add_document_chunks :: "services \<Rightarrow> string \<Rightarrow> chunk list \<Rightarrow> string \<Rightarrow> bool" where
  "add_document_chunks svc document_id chunks filename =
     (let ids = map (\<lambda>(i, c). document_id @ ''_'' @ str_nat i) (enumerate 0 chunks);
          documents = map content chunks;
          metadatas = map (\<lambda>(i, c). chunk_metadata svc document_id filename i c)
                          (enumerate 0 chunks)
      in case encode svc documents of
           Inl e \<Rightarrow> False
         | Inr embeddings \<Rightarrow>
             (case collection_add svc ids documents embeddings metadatas of
                Inl e \<Rightarrow> False
              | Inr u \<Rightarrow> True))"

text \<open>Lines 77 to 80: the filter is set only for a list that is not empty.\<close>

definition where_clause :: "string list option \<Rightarrow> string list option" where
  "where_clause document_ids =
     (case document_ids of
        None \<Rightarrow> None
      | Some ids \<Rightarrow> if ids \<noteq> [] then Some ids else None)"

record found_chunk =
  found_content :: string
  found_metadata :: row_metadata
  similarity_score :: real
  found_document_id :: string
  found_filename :: string
  found_chunk_index :: int

text \<open>The dictionary built for row \<open>i\<close> of the first result list (lines 94 to 101).\<close>

definition format_row :: "query_result \<Rightarrow> nat \<Rightarrow> error + found_chunk" where
  "format_row results i =
     and_then (py_nth (qr_documents results) 0) (\<lambda>docs.
     and_then (py_nth docs i) (\<lambda>doc.
     and_then (py_nth (qr_metadatas results) 0) (\<lambda>metas.
     and_then (py_nth metas i) (\<lambda>meta.
     and_then (py_nth (qr_distances results) 0) (\<lambda>dists.
     and_then (py_nth dists i) (\<lambda>dist.
     and_then (py_key ''document_id'' (md_document_id meta)) (\<lambda>document_id.
     and_then (py_key ''filename'' (md_filename meta)) (\<lambda>filename.
     and_then (py_key ''chunk_index'' (md_chunk_index meta)) (\<lambda>idx.
       Inr \<lparr>found_content = doc, found_metadata = meta, similarity_score = 1 - dist,
            found_document_id = document_id, found_filename = filename,
            found_chunk_index = idx\<rparr>)))))))))"

definition search_similar_chunks ::
  "services \<Rightarrow> string \<Rightarrow> string list option \<Rightarrow> int \<Rightarrow> found_chunk list"
where
  "search_similar_chunks svc query document_ids top_k =
     (case encode svc [query] of
        Inl e \<Rightarrow> []
      | Inr query_embedding \<Rightarrow>
          (case collection_query svc query_embedding top_k (where_clause document_ids) of
             Inl e \<Rightarrow> []
           | Inr results \<Rightarrow>
               if qr_documents results \<noteq> [] then
                 (case collect (format_row results)
                         [0..<length (qr_documents results ! 0)] of
                    Inl e \<Rightarrow> []
                  | Inr chunks \<Rightarrow> chunks)
               else []))"

section \<open>The completion service (gemini\_service.py)\<close>

text \<open>
  \<open>prompts_sent\<close> lists, in order, the prompts handed to the generative model: the trace
  of the calls that leave the program.
\<close>

record world =
  prompts_sent :: "string list"

definition call_model :: "services \<Rightarrow> world \<Rightarrow> string \<Rightarrow> (error + string) \<times> world" where
  "call_model svc w prompt =
     (generate_content svc prompt, w\<lparr>prompts_sent := prompts_sent w @ [prompt]\<rparr>)"

definition indent :: string where
  "indent = replicate 12 (CHR '' '')"

text \<open>The triple-quoted template: every line of it after the first begins with 12 blanks.\<close>

definition template :: "string list \<Rightarrow> string" where
  "template body_lines = newline @ concat (map (\<lambda>l. indent @ l @ newline) body_lines) @ indent"

definition full_prompt_of :: "string \<Rightarrow> string \<Rightarrow> string" where
  "full_prompt_of prompt context =
     template
       [''Context: '' @ context, '''', ''Question: '' @ prompt, '''',
        ''Please provide a comprehensive answer based on the context provided. '',
        ''If the context doesn't contain relevant information, say so clearly.'']"

definition generate_response :: "services \<Rightarrow> world \<Rightarrow> string \<Rightarrow> string \<Rightarrow> string \<times> world" where
  "generate_response svc w prompt context =
     (case call_model svc w (full_prompt_of prompt context) of
        (Inl e, w') \<Rightarrow>
          (''I apologize, but I encountered an error while processing your request.'', w')
      | (Inr response_text, w') \<Rightarrow> (response_text, w'))"

record comparison =
  similarities :: "string list"
  differences :: "string list"
  common_themes :: "string list"

definition empty_comparison :: comparison where
  "empty_comparison = \<lparr>similarities = [], differences = [], common_themes = []\<rparr>"

datatype section_name = In_similarities | In_differences

text \<open>One turn of the \<^verbatim>\<open>for line in lines\<close> loop of lines 137 to 149.\<close>

definition parse_line ::
  "string \<Rightarrow> section_name option \<times> comparison \<Rightarrow> section_name option \<times> comparison"
where
  "parse_line raw_line st =
     (let line = strip raw_line; current_section = fst st; cmp = snd st
      in if startswith line ''SIMILARITIES:'' then (Some In_similarities, cmp)
         else if startswith line ''DIFFERENCES:'' then (Some In_differences, cmp)
         else if startswith line ''COMMON_THEMES:'' then
           (current_section,
            cmp\<lparr>common_themes :=
                  map strip (split_on CHR '','' (remove_all ''COMMON_THEMES:'' line))\<rparr>)
         else if startswith line ''- '' then
           (if current_section = Some In_similarities then
              (current_section, cmp\<lparr>similarities := similarities cmp @ [remove_all ''- '' line]\<rparr>)
            else if current_section = Some In_differences then
              (current_section, cmp\<lparr>differences := differences cmp @ [remove_all ''- '' line]\<rparr>)
            else st)
         else st)"

definition parse_comparison :: "string \<Rightarrow> comparison" where
  "parse_comparison response_text =
     snd (fold parse_line (split_on (CHR 0x0A) response_text) (None, empty_comparison))"

text \<open>
  The lines \<^verbatim>\<open>Document {i+1} ({doc_names[i]}): {content}\<close>; \<^verbatim>\<open>doc_names[i]\<close> raises
  when there are fewer names than contents.
\<close>

definition document_lines :: "string list \<Rightarrow> string list \<Rightarrow> error + string list" where
  "document_lines limited_contents doc_names =
     collect (\<lambda>(i, c). and_then (py_nth doc_names i) (\<lambda>name.
                Inr (''Document '' @ str_nat (i + 1) @ '' ('' @ name @ ''): '' @ c)))
             (enumerate 0 limited_contents)"

definition compare_prompt :: "string list \<Rightarrow> string" where
  "compare_prompt doc_lines =
     template
       [''Compare the following documents and identify:'',
        ''1. Key similarities between them'',
        ''2. Major differences'',
        ''3. Common themes or topics'',
        ''4. Unique aspects of each document'',
        '''',
        ''Documents:'',
        py_join newline doc_lines,
        '''',
        ''Format your response as:'',
        ''SIMILARITIES:'',
        ''- [similarity 1]'',
        ''- [similarity 2]'',
        '''',
        ''DIFFERENCES:'',
        ''- [difference 1]'',
        ''- [difference 2]'',
        '''',
        ''COMMON_THEMES: [themes separated by commas]'']"

definition gemini_compare_documents ::
  "services \<Rightarrow> world \<Rightarrow> string list \<Rightarrow> string list \<Rightarrow> comparison \<times> world"
where
  "gemini_compare_documents svc w doc_contents doc_names =
     (let limited_contents = map (take 3000) doc_contents
      in case document_lines limited_contents doc_names of
           Inl e \<Rightarrow> (empty_comparison, w)
         | Inr doc_lines \<Rightarrow>
             (case call_model svc w (compare_prompt doc_lines) of
                (Inl e, w') \<Rightarrow> (empty_comparison, w')
              | (Inr response_text, w') \<Rightarrow> (parse_comparison response_text, w')))"

section \<open>The orchestrator (rag\_service.py)\<close>

type_synonym datetime = real

record DocumentResponse =
  doc_id :: string
  doc_filename :: string
  doc_content_type :: string
  doc_size :: nat
  doc_upload_date :: datetime
  doc_page_count :: "int option"
  doc_word_count :: "int option"
  doc_status :: string

record store_entry =
  entry_document :: DocumentResponse
  entry_file_path :: string
  entry_text :: string
  entry_metadata :: metadata_dict
  entry_chunks_count :: nat

record ChatSource =
  source_document_id :: string
  source_document_name :: string
  source_page_number :: "int option"
  source_chunk_text :: string
  source_relevance_score :: real

record ChatResponse =
  resp_question :: string
  resp_answer :: string
  resp_sources :: "ChatSource list"
  resp_response_time :: real
  resp_timestamp :: datetime
  resp_document_ids :: "string list"

text \<open>The two dictionaries of \<^verbatim>\<open>RAGService\<close>.\<close>

record rag_state =
  documents_store :: "string \<rightharpoonup> store_entry"
  chat_history :: "string \<rightharpoonup> ChatResponse list"

text \<open>\<^verbatim>\<open>metadata.get(key)\<close> where the extractors store integers.\<close>

definition get_int :: "metadata_dict \<Rightarrow> string \<Rightarrow> int option" where
  "get_int md key = (case map_of md key of Some (MInt n) \<Rightarrow> Some n | _ \<Rightarrow> None)"

text \<open>
  The body of the \<^verbatim>\<open>try\<close> block of \<^verbatim>\<open>process_document\<close>. The identifiers drawn by
  \<^verbatim>\<open>uuid.uuid4()\<close> and the clock are arguments. The outer \<open>option\<close> is \<open>None\<close> when the
  chunking loop never returns.
\<close>

definition process_document_try ::
  "settings \<Rightarrow> file_store \<Rightarrow> services \<Rightarrow> rag_state \<Rightarrow> string \<Rightarrow> string \<Rightarrow> datetime \<Rightarrow>
   string \<Rightarrow> string \<Rightarrow> string \<Rightarrow> ((error + DocumentResponse) \<times> rag_state) option"
where
  "process_document_try cfg fs svc s document_id file_id upload_date
       file_content filename content_type =
     (case save_uploaded_file fs (settings_upload_dir cfg) file_id file_content filename of
        Inl e \<Rightarrow> Some (Inl e, s)
      | Inr file_path \<Rightarrow>
          (let extraction = extract_text_from_file fs file_path filename;
               extracted = fst extraction; md = snd extraction
           in if extracted = [] then
                Some (Inl (Exception ''Failed to extract text from document''), s)
              else
                (case chunk_text cfg extracted filename None None of
                   None \<Rightarrow> None
                 | Some chunks \<Rightarrow>
                     if chunks = [] then
                       Some (Inl (Exception ''Failed to create text chunks''), s)
                     else if \<not> add_document_chunks svc document_id chunks filename then
                       Some (Inl (Exception ''Failed to store document in vector database''), s)
                     else
                       (let doc_response =
                              \<lparr>doc_id = document_id, doc_filename = filename,
                               doc_content_type = content_type,
                               doc_size = length file_content,
                               doc_upload_date = upload_date,
                               doc_page_count = get_int md ''page_count'',
                               doc_word_count =
                                 (case map_of md ''word_count'' of
                                    None \<Rightarrow> Some (word_count_of extracted)
                                  | Some v \<Rightarrow> get_int md ''word_count''),
                               doc_status = ''processed''\<rparr>
                        in Some (Inr doc_response,
                                 s\<lparr>documents_store := (documents_store s)(document_id \<mapsto>
                                      \<lparr>entry_document = doc_response,
                                       entry_file_path = file_path,
                                       entry_text = extracted,
                                       entry_metadata = md,
                                       entry_chunks_count = length chunks\<rparr>)\<rparr>)))))"

text \<open>The \<^verbatim>\<open>except\<close> clause: any exception of the body is raised again under a new message.\<close>

definition process_document ::
  "settings \<Rightarrow> file_store \<Rightarrow> services \<Rightarrow> rag_state \<Rightarrow> string \<Rightarrow> string \<Rightarrow> datetime \<Rightarrow>
   string \<Rightarrow> string \<Rightarrow> string \<Rightarrow> ((error + DocumentResponse) \<times> rag_state) option"
where
  "process_document cfg fs svc s document_id file_id upload_date
       file_content filename content_type =
     map_option
       (\<lambda>outcome. case fst outcome of
            Inl e \<Rightarrow>
              (Inl (Exception (''Document processing failed: '' @ message_of e)), snd outcome)
          | Inr d \<Rightarrow> outcome)
       (process_document_try cfg fs svc s document_id file_id upload_date
          file_content filename content_type)"

definition source_of :: "found_chunk \<Rightarrow> ChatSource" where
  "source_of c =
     \<lparr>source_document_id = found_document_id c,
      source_document_name = found_filename c,
      source_page_number = md_page_number (found_metadata c),
      source_chunk_text =
        (if length (found_content c) > 200 then take 200 (found_content c) @ ''...''
         else found_content c),
      source_relevance_score = similarity_score c\<rparr>"

definition context_part_of :: "found_chunk \<Rightarrow> string" where
  "context_part_of c = ''From '' @ found_filename c @ '':'' @ newline @ found_content c"

text \<open>The separator \<^verbatim>\<open>"\\n\\n---\\n\\n"\<close> of the context blocks.\<close>

definition context_separator :: string where
  "context_separator = newline @ newline @ ''---'' @ newline @ newline"

text \<open>\<^verbatim>\<open>document_ids or []\<close>.\<close>

definition ids_or_empty :: "string list option \<Rightarrow> string list" where
  "ids_or_empty document_ids = (case document_ids of None \<Rightarrow> [] | Some ids \<Rightarrow> ids)"

text \<open>Lines 151 to 155: the response is appended to the log of every listed document.\<close>

definition append_history ::
  "ChatResponse \<Rightarrow> string \<Rightarrow> (string \<rightharpoonup> ChatResponse list) \<Rightarrow> (string \<rightharpoonup> ChatResponse list)"
where
  "append_history chat_response document_id history =
     history(document_id \<mapsto>
       (case history document_id of None \<Rightarrow> [] | Some entries \<Rightarrow> entries) @ [chat_response])"

text \<open>
  \<^verbatim>\<open>ask_question\<close> calls two methods of other objects,
  \<^verbatim>\<open>vector_store.search_similar_chunks\<close> and \<^verbatim>\<open>gemini_service.generate_response\<close>. In
  \<open>ask_question_try\<close> and \<open>ask_question_with\<close> the two are arguments that may raise, so
  that the \<^verbatim>\<open>except\<close> clause has its runs; \<open>ask_question\<close> below hands in the two methods
  of this repository.
\<close>

type_synonym search_method = "string \<Rightarrow> string list option \<Rightarrow> int \<Rightarrow> error + found_chunk list"

type_synonym generate_method = "world \<Rightarrow> string \<Rightarrow> string \<Rightarrow> (error + string) \<times> world"

text \<open>
  The body of the \<^verbatim>\<open>try\<close> block. \<open>start_time\<close> and \<open>end_time\<close> are the two readings of
  \<^verbatim>\<open>time.time()\<close>, \<open>timestamp\<close> is \<^verbatim>\<open>datetime.now()\<close>.
\<close>

definition ask_question_try ::
  "search_method \<Rightarrow> generate_method \<Rightarrow> rag_state \<Rightarrow> world \<Rightarrow> string \<Rightarrow>
   string list option \<Rightarrow> int \<Rightarrow> real \<Rightarrow> real \<Rightarrow> datetime \<Rightarrow>
   (error + ChatResponse \<times> rag_state) \<times> world"
where
  "ask_question_try search generate s w question document_ids max_sources
       start_time end_time timestamp =
     (case search question document_ids max_sources of
        Inl e \<Rightarrow> (Inl e, w)
      | Inr relevant_chunks \<Rightarrow>
          if relevant_chunks = [] then
            (Inr (\<lparr>resp_question = question,
                    resp_answer = ''I couldn't find relevant information in the uploaded documents to answer your question.'',
                    resp_sources = [],
                    resp_response_time = end_time - start_time,
                    resp_timestamp = timestamp,
                    resp_document_ids = ids_or_empty document_ids\<rparr>, s), w)
          else
            (let context_parts = map context_part_of relevant_chunks;
                 sources = map source_of relevant_chunks;
                 context = py_join context_separator context_parts
             in case generate w question context of
                  (Inl e, w') \<Rightarrow> (Inl e, w')
                | (Inr answer, w') \<Rightarrow>
                    (let chat_response =
                           \<lparr>resp_question = question,
                            resp_answer = answer,
                            resp_sources = sources,
                            resp_response_time = end_time - start_time,
                            resp_timestamp = timestamp,
                            resp_document_ids = ids_or_empty document_ids\<rparr>;
                         history =
                           (if ids_or_empty document_ids \<noteq> [] then
                              fold (append_history chat_response) (ids_or_empty document_ids)
                                (chat_history s)
                            else chat_history s)
                     in (Inr (chat_response, s\<lparr>chat_history := history\<rparr>), w'))))"

text \<open>The response that the \<^verbatim>\<open>except\<close> clause builds from the exception it caught.\<close>

definition error_response ::
  "string \<Rightarrow> string list option \<Rightarrow> real \<Rightarrow> real \<Rightarrow> datetime \<Rightarrow> error \<Rightarrow> ChatResponse"
where
  "error_response question document_ids start_time end_time timestamp e =
     \<lparr>resp_question = question,
      resp_answer = ''I encountered an error while processing your question: '' @ message_of e,
      resp_sources = [],
      resp_response_time = end_time - start_time,
      resp_timestamp = timestamp,
      resp_document_ids = ids_or_empty document_ids\<rparr>"

definition ask_question_with ::
  "search_method \<Rightarrow> generate_method \<Rightarrow> rag_state \<Rightarrow> world \<Rightarrow> string \<Rightarrow>
   string list option \<Rightarrow> int \<Rightarrow> real \<Rightarrow> real \<Rightarrow> datetime \<Rightarrow>
   (error + ChatResponse \<times> rag_state) \<times> world"
where
  "ask_question_with search generate s w question document_ids max_sources
       start_time end_time timestamp =
     (case ask_question_try search generate s w question document_ids max_sources
             start_time end_time timestamp of
        (Inr r, w') \<Rightarrow> (Inr r, w')
      | (Inl e, w') \<Rightarrow>
          (Inr (error_response question document_ids start_time end_time timestamp e, s), w'))"

text \<open>
  The two methods of this repository as \<open>ask_question\<close> sees them: each catches every
  exception itself, so neither call raises.
\<close>

definition own_search :: "services \<Rightarrow> search_method" where
  "own_search svc question document_ids max_sources =
     Inr (search_similar_chunks svc question document_ids max_sources)"

definition own_generate :: "services \<Rightarrow> generate_method" where
  "own_generate svc w prompt context =
     (Inr (fst (generate_response svc w prompt context)),
      snd (generate_response svc w prompt context))"

definition ask_question ::
  "services \<Rightarrow> rag_state \<Rightarrow> world \<Rightarrow> string \<Rightarrow> string list option \<Rightarrow> int \<Rightarrow>
   real \<Rightarrow> real \<Rightarrow> datetime \<Rightarrow> (error + ChatResponse \<times> rag_state) \<times> world"
where
  "ask_question svc s w question document_ids max_sources start_time end_time timestamp =
     ask_question_with (own_search svc) (own_generate svc) s w question document_ids
       max_sources start_time end_time timestamp"

record document_info =
  info_id :: string
  info_filename :: string
  info_word_count :: "int option"

record comparison_result = comparison +
  documents :: "document_info list"

text \<open>The \<^verbatim>\<open>for doc_id in document_ids\<close> loop of lines 180 to 186.\<close>

definition gather_documents ::
  "rag_state \<Rightarrow> string list \<Rightarrow> error + (string \<times> string) list"
where
  "gather_documents s document_ids =
     collect (\<lambda>document_id.
                case documents_store s document_id of
                  None \<Rightarrow> Inl (Exception (''Document '' @ document_id @ '' not found''))
                | Some doc_data \<Rightarrow>
                    Inr (entry_text doc_data, doc_filename (entry_document doc_data)))
             document_ids"

definition compare_documents_try ::
  "services \<Rightarrow> rag_state \<Rightarrow> world \<Rightarrow> string list \<Rightarrow> (error + comparison_result) \<times> world"
where
  "compare_documents_try svc s w document_ids =
     (if length document_ids < 2 then
        (Inl (Exception ''At least 2 documents are required for comparison''), w)
      else
        (case gather_documents s document_ids of
           Inl e \<Rightarrow> (Inl e, w)
         | Inr gathered \<Rightarrow>
             (let doc_contents = map fst gathered; doc_names = map snd gathered;
                  compared = gemini_compare_documents svc w doc_contents doc_names
              in (and_then
                    (collect
                       (\<lambda>document_id.
                          and_then (py_key document_id (documents_store s document_id))
                            (\<lambda>doc_data.
                               Inr \<lparr>info_id = document_id,
                                    info_filename = doc_filename (entry_document doc_data),
                                    info_word_count =
                                      doc_word_count (entry_document doc_data)\<rparr>))
                       document_ids)
                    (\<lambda>infos.
                       Inr (comparison.extend (fst compared) (comparison_result.fields infos))),
                  snd compared))))"

definition compare_documents ::
  "services \<Rightarrow> rag_state \<Rightarrow> world \<Rightarrow> string list \<Rightarrow> (error + comparison_result) \<times> world"
where
  "compare_documents svc s w document_ids =
     (case compare_documents_try svc s w document_ids of
        (Inl e, w') \<Rightarrow>
          (Inl (Exception (''Document comparison failed: '' @ message_of e)), w')
      | (Inr r, w') \<Rightarrow> (Inr r, w'))"

definition get_chat_history :: "rag_state \<Rightarrow> string \<Rightarrow> ChatResponse list" where
  "get_chat_history s document_id =
     (case chat_history s document_id of None \<Rightarrow> [] | Some entries \<Rightarrow> entries)"

text \<open>
  \<^verbatim>\<open>clear_chat_history\<close>: the membership test and the \<^verbatim>\<open>del\<close> raise nothing, so the
  \<^verbatim>\<open>except\<close> clause that would return \<^verbatim>\<open>False\<close> has no run.
\<close>

definition clear_chat_history :: "rag_state \<Rightarrow> string \<Rightarrow> bool \<times> rag_state" where
  "clear_chat_history s document_id =
     (if document_id \<in> dom (chat_history s) then
        (True, s\<lparr>chat_history := (chat_history s)(document_id := None)\<rparr>)
      else (True, s))"

subsection \<open>Predicates on chunk sequences\<close>

text \<open>
  What holds of the chunks collected so far whenever the loop test is evaluated with
  the cursor at \<open>start_pos\<close>: the indices emitted are \<open>0, 1, \<dots>\<close> in order, every range
  is well formed and ends at or before the cursor, and every chunk ends where or before
  each later one starts.
\<close>

definition loop_inv :: "string \<Rightarrow> int \<Rightarrow> int \<Rightarrow> chunk list \<Rightarrow> bool" where
  "loop_inv text start_pos idx chunks \<longleftrightarrow>
     0 \<le> start_pos \<and> idx = int (length chunks) \<and>
     map chunk_index chunks = map int [0..<length chunks] \<and>
     list_all (\<lambda>c. 0 \<le> start_char c \<and> start_char c \<le> end_char c \<and>
                    end_char c \<le> start_pos \<and> end_char c \<le> int (length text)) chunks \<and>
     sorted_wrt (\<lambda>a b. end_char a \<le> start_char b) chunks"

text \<open>Every chunk collected so far ends at or before the cursor and at or before the start of each later chunk.\<close>

definition ends_before :: "int \<Rightarrow> chunk list \<Rightarrow> bool" where
  "ends_before start_pos chunks \<longleftrightarrow>
     list_all (\<lambda>c. end_char c \<le> start_pos) chunks \<and>
     sorted_wrt (\<lambda>a b. end_char a \<le> start_char b) chunks"

text \<open>Position \<open>p\<close> lies in the range \<open>[start_char, end_char)\<close> of one of the chunks.\<close>

definition covered :: "chunk list \<Rightarrow> int \<Rightarrow> bool" where
  "covered chunks p = list_ex (\<lambda>c. start_char c \<le> p \<and> p < end_char c) chunks"

subsection \<open>Predicates and constants for the services\<close>

text \<open>
  What the index is documented to reply to a query for \<open>top_k\<close> neighbours under the
  cosine metric: no more than \<open>top_k\<close> rows in each result list, and in each list of
  distances values from 0 to 2 in ascending order.
\<close>

definition reply_within :: "int \<Rightarrow> query_result \<Rightarrow> bool" where
  "reply_within top_k results \<longleftrightarrow>
     list_all (\<lambda>docs. int (length docs) \<le> top_k) (qr_documents results) \<and>
     list_all (\<lambda>dists. sorted dists \<and> list_all (\<lambda>d. 0 \<le> d \<and> d \<le> 2) dists)
       (qr_distances results)"

text \<open>The context string that \<open>ask_question\<close> builds from the chunks it found.\<close>

definition context_of :: "found_chunk list \<Rightarrow> string" where
  "context_of chunks =
     py_join context_separator (map context_part_of chunks)"

text \<open>The two fixed answers: of \<open>ask_question\<close> when nothing is found, and of \<open>generate_response\<close> when the model call raises.\<close>

definition no_information :: string where
  "no_information =
     ''I couldn't find relevant information in the uploaded documents to answer your question.''"

definition apology :: string where
  "apology = ''I apologize, but I encountered an error while processing your request.''"
subsection \<open>Sample data\<close>

text \<open>What \<open>chunk_text\<close> returns for \<^verbatim>\<open>a.bbbbbbbbbbbb\<close>, chunk size 5, overlap 0.\<close>

definition three_chunks :: "chunk list" where
  "three_chunks =
     [\<lparr>content = ''a.'', chunk_index = 0, start_char = 0, end_char = 2,
       metadata = [(''filename'', MStr ''f''), (''chunk_size'', MInt 2),
                   (''total_chunks'', MInt 3)]\<rparr>,
      \<lparr>content = ''bbbbb'', chunk_index = 1, start_char = 5, end_char = 10,
       metadata = [(''filename'', MStr ''f''), (''chunk_size'', MInt 5),
                   (''total_chunks'', MInt 3)]\<rparr>,
      \<lparr>content = ''bbbb'', chunk_index = 2, start_char = 10, end_char = 14,
       metadata = [(''filename'', MStr ''f''), (''chunk_size'', MInt 4),
                   (''total_chunks'', MInt 3)]\<rparr>]"

text \<open>What \<open>chunk_text\<close> returns for three blanks and a letter, chunk size 2, overlap 0.\<close>

definition letter_after_blanks :: "chunk list" where
  "letter_after_blanks =
     [\<lparr>content = ''a'', chunk_index = 0, start_char = 2, end_char = 4,
       metadata = [(''filename'', MStr ''f''), (''chunk_size'', MInt 1),
                   (''total_chunks'', MInt 1)]\<rparr>]"

text \<open>
  An orchestrator without documents; a file store in which every text file reads as
  \<^verbatim>\<open>hello\<close> but for two paths, one empty and one of three blanks; services whose every
  call raises but the insert; and settings with windows of two characters.
\<close>

definition no_documents :: rag_state where
  "no_documents = \<lparr>documents_store = Map.empty, chat_history = Map.empty\<rparr>"

definition sample_files :: file_store where
  "sample_files =
     \<lparr>write_file = (\<lambda>path file_content. Inr ()),
      pdf_pages = (\<lambda>path. Inl (Exception ''not a PDF file'')),
      docx_body = (\<lambda>path. Inl (Exception ''not a DOCX file'')),
      read_utf8 = (\<lambda>path. if path = ''uploads/f1.txt'' then Utf8_text []
                           else if path = ''uploads/f2.txt'' then Utf8_text ''   ''
                           else Utf8_text ''hello''),
      read_latin1 = (\<lambda>path. Inr [])\<rparr>"

definition offline_services :: services where
  "offline_services =
     \<lparr>encode = (\<lambda>texts. Inl (Exception ''embedding model unavailable'')),
      collection_add = (\<lambda>ids documents embeddings metadatas. Inr ()),
      collection_query = (\<lambda>query_embedding n_results ids. Inl (Exception ''index unavailable'')),
      generate_content = (\<lambda>prompt. Inl (Exception ''model unavailable'')),
      now_isoformat = (\<lambda>i. ''2024-01-01T00:00:00'')\<rparr>"

definition narrow_settings :: settings where
  "narrow_settings =
     \<lparr>settings_upload_dir = ''uploads'', settings_chunk_size = 2, settings_chunk_overlap = 0\<rparr>"

definition hello_chunk :: chunk where
  "hello_chunk =
     \<lparr>content = ''hello'', chunk_index = 0, start_char = 0, end_char = 5,
      metadata = [(''filename'', MStr ''a.txt''), (''total_chunks'', MInt 1)]\<rparr>"

text \<open>
  An index that answers a query for at least two neighbours with two rows, at the cosine
  distances 1/2 and 3/2, beside a generative model that always raises; the chunks that
  \<open>search_similar_chunks\<close> makes of the two rows; and the two responses of \<open>ask_question\<close>
  in the samples below, asked at time 10 and answered at time 12.
\<close>

definition two_rows :: query_result where
  "two_rows =
     \<lparr>qr_documents = [[''alpha'', ''beta'']],
      qr_metadatas =
        [[\<lparr>md_document_id = Some ''d1'', md_filename = Some ''a.txt'',
           md_chunk_index = Some 0, md_page_number = None\<rparr>,
          \<lparr>md_document_id = Some ''d2'', md_filename = Some ''b.txt'',
           md_chunk_index = Some 3, md_page_number = None\<rparr>]],
      qr_distances = [[1 / 2, 3 / 2]]\<rparr>"

definition two_hits :: "found_chunk list" where
  "two_hits =
     [\<lparr>found_content = ''alpha'',
       found_metadata = \<lparr>md_document_id = Some ''d1'', md_filename = Some ''a.txt'',
                         md_chunk_index = Some 0, md_page_number = None\<rparr>,
       similarity_score = 1 / 2, found_document_id = ''d1'', found_filename = ''a.txt'',
       found_chunk_index = 0\<rparr>,
      \<lparr>found_content = ''beta'',
       found_metadata = \<lparr>md_document_id = Some ''d2'', md_filename = Some ''b.txt'',
                         md_chunk_index = Some 3, md_page_number = None\<rparr>,
       similarity_score = - (1 / 2), found_document_id = ''d2'', found_filename = ''b.txt'',
       found_chunk_index = 3\<rparr>]"

definition silent_model_services :: services where
  "silent_model_services =
     \<lparr>encode = (\<lambda>texts. Inr (map (\<lambda>t. [0]) texts)),
      collection_add = (\<lambda>ids documents embeddings metadatas. Inr ()),
      collection_query = (\<lambda>query_embedding n_results ids.
         if 2 \<le> n_results then Inr two_rows
         else Inl (Exception ''fewer results requested than rows'')),
      generate_content = (\<lambda>prompt. Inl (Exception ''model unavailable'')),
      now_isoformat = (\<lambda>i. ''2024-01-01T00:00:00'')\<rparr>"

definition apology_with_sources :: ChatResponse where
  "apology_with_sources =
     \<lparr>resp_question = ''q'', resp_answer = apology, resp_sources = map source_of two_hits,
      resp_response_time = 2, resp_timestamp = 0, resp_document_ids = []\<rparr>"

definition nothing_found :: ChatResponse where
  "nothing_found =
     \<lparr>resp_question = ''q'', resp_answer = no_information, resp_sources = [],
      resp_response_time = 2, resp_timestamp = 0, resp_document_ids = []\<rparr>"

text \<open>
  A search method that raises, one that finds the two chunks above, and a generate method
  that raises after the prompt has gone out.
\<close>

definition raising_search :: search_method where
  "raising_search question document_ids max_sources = Inl (Exception ''search unavailable'')"

definition finding_search :: search_method where
  "finding_search question document_ids max_sources = Inr two_hits"

definition raising_generate :: generate_method where
  "raising_generate w prompt context =
     (Inl (Exception ''generation unavailable''), w\<lparr>prompts_sent := prompts_sent w @ [prompt]\<rparr>)"
section \<open>Properties of the string primitives\<close>

lemma py_index_id: "0 \<le> i \<Longrightarrow> i \<le> int n \<Longrightarrow> py_index n i = nat i"
  by (simp add: py_index_def)

lemma py_index_le: "py_index n i \<le> n"
  by (auto simp add: py_index_def)

lemma py_index_nonneg_le: "0 \<le> i \<Longrightarrow> int (py_index n i) \<le> i"
  by (simp add: py_index_def)

lemma py_index_nonneg_ge: "0 \<le> i \<Longrightarrow> i \<le> int (py_index n i) \<or> py_index n i = n"
  by (auto simp add: py_index_def min_def)

lemma rfind_down_range:
  "rfind_down text sub lo k = - 1 \<or>
   (int lo \<le> rfind_down text sub lo k \<and> rfind_down text sub lo k < int (lo + k))"
  by (induction k) auto

lemma rfind_range:
  assumes "0 \<le> i" and "0 \<le> j" and "sub \<noteq> []"
  shows "rfind text sub i j = - 1 \<or> (i \<le> rfind text sub i j \<and> rfind text sub i j < j)"
proof -
  define a where "a = py_index (length text) i"
  define b where "b = py_index (length text) j"
  show ?thesis
  proof (cases "b < a + length sub")
    case True
    then show ?thesis by (simp add: rfind_def a_def b_def)
  next
    case False
    then have r: "rfind text sub i j = rfind_down text sub a (Suc (b - a - length sub))"
      by (simp add: rfind_def a_def b_def Let_def)
    from False assms(3) have "a < length text"
      using py_index_le [of "length text" j] by (cases sub) (auto simp: b_def)
    then have ai: "int a = i"
      using assms(1) by (auto simp: a_def py_index_def min_def split: if_splits)
    have bj: "int b \<le> j" using assms(2) py_index_nonneg_le by (simp add: b_def)
    from assms(3) have "0 < length sub" by simp
    with False have "int (a + Suc (b - a - length sub)) \<le> int b" by linarith
    with rfind_down_range [of "text" sub a "Suc (b - a - length sub)"] r ai bj
    show ?thesis by linarith
  qed
qed

lemma best_break_of_range:
  assumes "0 \<le> s" and "0 \<le> e"
  shows "best_break_of text s e = - 1 \<or> (s \<le> best_break_of text s e \<and> best_break_of text s e < e)"
proof -
  have step: "\<And>sub best. sub \<noteq> [] \<Longrightarrow> best = - 1 \<or> (s \<le> best \<and> best < e) \<Longrightarrow>
     (let pos = rfind text sub s e in if pos > best then pos else best) = - 1 \<or>
     (s \<le> (let pos = rfind text sub s e in if pos > best then pos else best) \<and>
      (let pos = rfind text sub s e in if pos > best then pos else best) < e)"
    using rfind_range [OF assms] by (auto simp add: Let_def)
  show ?thesis
    unfolding best_break_of_def sentence_endings_def fold_simps
    by (intro step) simp_all
qed

lemma cut_end_gt: "1 \<le> chunk_size \<Longrightarrow> start_pos < int (length text) \<Longrightarrow>
   start_pos < cut_end text chunk_size start_pos"
  by (simp add: cut_end_def Let_def)

lemma cut_end_ge: "0 \<le> chunk_size \<Longrightarrow> start_pos < int (length text) \<Longrightarrow>
   start_pos \<le> cut_end text chunk_size start_pos"
  by (simp add: cut_end_def Let_def)

lemma cut_end_le:
  assumes "0 \<le> chunk_size" and "0 \<le> start_pos" and "start_pos < int (length text)"
  shows "cut_end text chunk_size start_pos \<le> int (length text)"
proof -
  define e where "e = min (start_pos + chunk_size) (int (length text))"
  define s where "s = max (e - 100) start_pos"
  have "0 \<le> s" "0 \<le> e" using assms by (auto simp: e_def s_def)
  from best_break_of_range [OF this, of "text"] \<open>0 \<le> e\<close>
  have "best_break_of text s e + 1 \<le> e" by linarith
  moreover have "e \<le> int (length text)" by (simp add: e_def)
  ultimately show ?thesis
    by (simp add: cut_end_def Let_def e_def [symmetric] s_def [symmetric])
qed

lemma cut_end_no_gap:
  assumes "0 \<le> chunk_size" and "0 \<le> start_pos" and "start_pos < int (length text)"
    and "chunk_size - chunk_overlap \<le> 2 \<or> 99 \<le> chunk_overlap" and "0 \<le> chunk_overlap"
  shows "cut_end text chunk_size start_pos = int (length text) \<or>
         start_pos + chunk_size - chunk_overlap \<le> cut_end text chunk_size start_pos"
proof -
  define e where "e = min (start_pos + chunk_size) (int (length text))"
  define s where "s = max (e - 100) start_pos"
  have "0 \<le> s" "0 \<le> e" using assms by (auto simp: e_def s_def)
  from best_break_of_range [OF this, of "text"]
  have bb: "best_break_of text s e = - 1 \<or> (s \<le> best_break_of text s e \<and> best_break_of text s e < e)" .
  show ?thesis
  proof (cases "e < int (length text)")
    case False
    moreover have "e \<le> int (length text)" by (simp add: e_def)
    ultimately have "cut_end text chunk_size start_pos = int (length text)"
      by (simp add: cut_end_def Let_def e_def [symmetric])
    then show ?thesis by simp
  next
    case True
    then have e: "e = start_pos + chunk_size" by (simp add: e_def min_def split: if_splits)
    show ?thesis
    proof (cases "best_break_of text s e > start_pos")
      case False
      with True have "cut_end text chunk_size start_pos = e"
        by (simp add: cut_end_def Let_def e_def [symmetric] s_def [symmetric])
      with e assms(5) show ?thesis by simp
    next
      case bt: True
      with True have c: "cut_end text chunk_size start_pos = best_break_of text s e + 1"
        by (simp add: cut_end_def Let_def e_def [symmetric] s_def [symmetric])
      from bt bb assms(2) have "s \<le> best_break_of text s e" by linarith
      then have "e - 100 \<le> best_break_of text s e" by (simp add: s_def)
      with bt e c assms(4) show ?thesis by linarith
    qed
  qed
qed

lemma strip_empty_all_space:
  assumes "strip s = []" shows "\<forall>c\<in>set s. isspace c"
proof -
  from assms have "\<forall>c\<in>set (dropWhile isspace s). isspace c"
    by (simp add: strip_def dropWhile_eq_Nil_conv)
  moreover have "\<forall>c\<in>set (takeWhile isspace s). isspace c"
    by (auto dest: set_takeWhileD)
  moreover have "set s = set (takeWhile isspace s) \<union> set (dropWhile isspace s)"
    by (metis set_append takeWhile_dropWhile_id)
  ultimately show ?thesis by auto
qed

lemma slice_window:
  assumes "0 \<le> i" and "i \<le> j" and "j \<le> int (length xs)"
  shows "slice xs i j = take (nat (j - i)) (drop (nat i) xs)"
  using assms by (simp add: slice_def py_index_id Let_def nat_diff_distrib)

lemma slice_window_mem:
  assumes "0 \<le> i" and "i \<le> p" and "p < j" and "j \<le> int (length xs)"
  shows "xs ! nat p \<in> set (slice xs i j)"
proof -
  have "slice xs i j ! (nat p - nat i) = xs ! nat p" and "nat p - nat i < length (slice xs i j)"
    using assms by (auto simp: slice_window [of i j xs])
  then show ?thesis by (metis nth_mem)
qed


section \<open>The chunking loop: invariant, termination, coverage\<close>

lemma loop_inv_skip:
  assumes "loop_inv text start_pos idx chunks" and "start_pos \<le> next_pos"
  shows "loop_inv text next_pos idx chunks"
  using assms by (auto simp: loop_inv_def list_all_iff)

lemma loop_inv_emit:
  assumes "loop_inv text start_pos idx chunks" and "start_pos \<le> end_pos"
    and "end_pos \<le> next_pos" and "end_pos \<le> int (length text)"
  shows "loop_inv text next_pos (idx + 1)
           (chunks @ [new_chunk filename chunk_content idx start_pos end_pos])"
  using assms by (auto simp: loop_inv_def list_all_iff new_chunk_def sorted_wrt_append)

lemma chunk_loop_inv:
  assumes run: "chunk_loop text filename chunk_size chunk_overlap start_pos idx chunks = Some result"
    and "0 \<le> chunk_size" and "loop_inv text start_pos idx chunks"
  shows "\<exists>e. loop_inv text e (int (length result)) result"
proof -
  have "0 \<le> chunk_size \<longrightarrow> loop_inv text start_pos idx chunks \<longrightarrow>
        (\<exists>e. loop_inv text e (int (length result)) result)"
  proof (rule chunk_loop.raw_induct [where P = "\<lambda>tx fn cs ov st i cks res.
           0 \<le> cs \<longrightarrow> loop_inv tx st i cks \<longrightarrow> (\<exists>e. loop_inv tx e (int (length res)) res)",
           OF _ run], goal_cases)
    case (1 loop tx fn cs ov st i cks res)
    show ?case
    proof (intro impI)
      assume cs: "0 \<le> cs" and inv: "loop_inv tx st i cks"
      show "\<exists>e. loop_inv tx e (int (length res)) res"
      proof (cases "st < int (length tx)")
        case False
        with 1(2) have "res = cks" by simp
        moreover from inv have "i = int (length cks)" by (simp add: loop_inv_def)
        ultimately have "loop_inv tx st (int (length res)) res" using inv by simp
        then show ?thesis ..
      next
        case True
        define end_pos where "end_pos = cut_end tx cs st"
        define next_pos where "next_pos = max (st + cs - ov) end_pos"
        define chunk_content where "chunk_content = strip (slice tx st end_pos)"
        have s0: "0 \<le> st" using inv by (simp add: loop_inv_def)
        have ge: "st \<le> end_pos" using cut_end_ge [OF cs True] by (simp add: end_pos_def)
        have le: "end_pos \<le> int (length tx)"
          using cut_end_le [OF cs s0 True] by (simp add: end_pos_def)
        have nx: "end_pos \<le> next_pos" by (simp add: next_pos_def)
        show ?thesis
        proof (cases "chunk_content = []")
          case True
          with \<open>st < int (length tx)\<close> 1(2)
          have "loop tx fn cs ov next_pos i cks = Some res"
            by (simp add: Let_def end_pos_def next_pos_def chunk_content_def)
          moreover have "loop_inv tx next_pos i cks"
            using loop_inv_skip [OF inv] ge nx by simp
          ultimately show ?thesis using 1(1) cs by blast
        next
          case False
          with \<open>st < int (length tx)\<close> 1(2)
          have "loop tx fn cs ov next_pos (i + 1)
                  (cks @ [new_chunk fn chunk_content i st end_pos]) = Some res"
            by (simp add: Let_def end_pos_def next_pos_def chunk_content_def)
          moreover have "loop_inv tx next_pos (i + 1)
                  (cks @ [new_chunk fn chunk_content i st end_pos])"
            using loop_inv_emit [OF inv ge nx le] .
          ultimately show ?thesis using 1(1) cs by blast
        qed
      qed
    qed
  qed
  with assms(2,3) show ?thesis by blast
qed

lemma chunk_loop_terminates:
  assumes "1 \<le> chunk_size"
  shows "\<exists>result. chunk_loop text filename chunk_size chunk_overlap start_pos idx chunks = Some result"
proof (induction "nat (int (length text) - start_pos)" arbitrary: start_pos idx chunks rule: less_induct)
  case less
  show ?case
  proof (cases "start_pos < int (length text)")
    case False
    then show ?thesis by (subst chunk_loop.simps) simp
  next
    case True
    define end_pos where "end_pos = cut_end text chunk_size start_pos"
    define next_pos where "next_pos = max (start_pos + chunk_size - chunk_overlap) end_pos"
    have "start_pos < next_pos"
      using cut_end_gt [OF assms True] by (simp add: next_pos_def end_pos_def)
    with True have "nat (int (length text) - next_pos) < nat (int (length text) - start_pos)"
      by linarith
    from less [OF this] True show ?thesis
      by (subst chunk_loop.simps) (simp add: Let_def end_pos_def next_pos_def)
  qed
qed

lemma covered_append: "covered (chunks @ [c]) p \<longleftrightarrow> covered chunks p \<or> (start_char c \<le> p \<and> p < end_char c)"
  by (auto simp: covered_def list_ex_iff)

lemma chunk_loop_covers:
  assumes run: "chunk_loop text filename chunk_size chunk_overlap start_pos idx chunks = Some result"
    and cfg: "0 \<le> chunk_size" "0 \<le> chunk_overlap" "chunk_size - chunk_overlap \<le> 2 \<or> 99 \<le> chunk_overlap"
    and start: "0 \<le> start_pos"
    and before: "\<forall>p. 0 \<le> p \<and> p < start_pos \<and> p < int (length text) \<and> \<not> isspace (text ! nat p)
                   \<longrightarrow> covered chunks p"
  shows "\<forall>p. 0 \<le> p \<and> p < int (length text) \<and> \<not> isspace (text ! nat p) \<longrightarrow> covered result p"
proof -
  have "0 \<le> chunk_size \<and> 0 \<le> chunk_overlap \<and> (chunk_size - chunk_overlap \<le> 2 \<or> 99 \<le> chunk_overlap) \<longrightarrow>
        0 \<le> start_pos \<longrightarrow>
        (\<forall>p. 0 \<le> p \<and> p < start_pos \<and> p < int (length text) \<and> \<not> isspace (text ! nat p)
              \<longrightarrow> covered chunks p) \<longrightarrow>
        (\<forall>p. 0 \<le> p \<and> p < int (length text) \<and> \<not> isspace (text ! nat p) \<longrightarrow> covered result p)"
  proof (rule chunk_loop.raw_induct [where P = "\<lambda>tx fn cs ov st i cks res.
           0 \<le> cs \<and> 0 \<le> ov \<and> (cs - ov \<le> 2 \<or> 99 \<le> ov) \<longrightarrow> 0 \<le> st \<longrightarrow>
           (\<forall>p. 0 \<le> p \<and> p < st \<and> p < int (length tx) \<and> \<not> isspace (tx ! nat p) \<longrightarrow> covered cks p) \<longrightarrow>
           (\<forall>p. 0 \<le> p \<and> p < int (length tx) \<and> \<not> isspace (tx ! nat p) \<longrightarrow> covered res p)",
           OF _ run], goal_cases)
    case (1 loop tx fn cs ov st i cks res)
    show ?case
    proof (intro impI)
      assume c: "0 \<le> cs \<and> 0 \<le> ov \<and> (cs - ov \<le> 2 \<or> 99 \<le> ov)" and s0: "0 \<le> st"
        and inv: "\<forall>p. 0 \<le> p \<and> p < st \<and> p < int (length tx) \<and> \<not> isspace (tx ! nat p) \<longrightarrow> covered cks p"
      show "\<forall>p. 0 \<le> p \<and> p < int (length tx) \<and> \<not> isspace (tx ! nat p) \<longrightarrow> covered res p"
      proof (cases "st < int (length tx)")
        case False
        with 1(2) have "res = cks" by simp
        with False inv show ?thesis by auto
      next
        case True
        define end_pos where "end_pos = cut_end tx cs st"
        define next_pos where "next_pos = max (st + cs - ov) end_pos"
        define chunk_content where "chunk_content = strip (slice tx st end_pos)"
        from c have cs: "0 \<le> cs" and ov: "0 \<le> ov" and gap: "cs - ov \<le> 2 \<or> 99 \<le> ov" by simp_all
        have ge: "st \<le> end_pos" using cut_end_ge [OF cs True] by (simp add: end_pos_def)
        have le: "end_pos \<le> int (length tx)"
          using cut_end_le [OF cs s0 True] by (simp add: end_pos_def)
        have nx: "end_pos \<le> next_pos" by (simp add: next_pos_def)
        have window: "p < end_pos" if "p < next_pos" "p < int (length tx)" for p
          using cut_end_no_gap [OF cs s0 True gap ov] that
          by (auto simp: next_pos_def end_pos_def)
        have n0: "0 \<le> next_pos" using s0 ge nx by simp
        show ?thesis
        proof (cases "chunk_content = []")
          case True
          with \<open>st < int (length tx)\<close> 1(2)
          have r: "loop tx fn cs ov next_pos i cks = Some res"
            by (simp add: Let_def end_pos_def next_pos_def chunk_content_def)
          have "covered cks p"
            if p: "0 \<le> p" "p < next_pos" "p < int (length tx)" "\<not> isspace (tx ! nat p)" for p
          proof (cases "p < st")
            case True
            with p inv show ?thesis by simp
          next
            case False
            then have "tx ! nat p \<in> set (slice tx st end_pos)"
              using slice_window_mem [OF s0 _ window [OF p(2,3)] le] by simp
            with strip_empty_all_space [of "slice tx st end_pos"] True p(4)
            show ?thesis by (simp add: chunk_content_def)
          qed
          then have "\<forall>p. 0 \<le> p \<and> p < next_pos \<and> p < int (length tx) \<and> \<not> isspace (tx ! nat p)
                       \<longrightarrow> covered cks p" by blast
          with 1(1) [OF r] c n0 show ?thesis by blast
        next
          case False
          let ?cks = "cks @ [new_chunk fn chunk_content i st end_pos]"
          from False \<open>st < int (length tx)\<close> 1(2)
          have r: "loop tx fn cs ov next_pos (i + 1) ?cks = Some res"
            by (simp add: Let_def end_pos_def next_pos_def chunk_content_def)
          have "covered ?cks p"
            if p: "0 \<le> p" "p < next_pos" "p < int (length tx)" "\<not> isspace (tx ! nat p)" for p
          proof (cases "p < st")
            case True
            with p inv show ?thesis by (simp add: covered_append)
          next
            case False
            with window [OF p(2,3)] show ?thesis
              by (simp add: covered_append new_chunk_def)
          qed
          then have "\<forall>p. 0 \<le> p \<and> p < next_pos \<and> p < int (length tx) \<and> \<not> isspace (tx ! nat p)
                       \<longrightarrow> covered ?cks p" by blast
          with 1(1) [OF r] c n0 show ?thesis by blast
        qed
      qed
    qed
  qed
  with cfg start before show ?thesis by blast
qed

section \<open>Properties of \<open>chunk_text\<close>\<close>

lemma set_total_chunks_fields:
  "length (set_total_chunks chunks) = length chunks"
  "map chunk_index (set_total_chunks chunks) = map chunk_index chunks"
  "map start_char (set_total_chunks chunks) = map start_char chunks"
  "map end_char (set_total_chunks chunks) = map end_char chunks"
  by (simp_all add: set_total_chunks_def)

lemma loop_inv_set_total_chunks:
  "loop_inv tx e n (set_total_chunks chunks) = loop_inv tx e n chunks"
  by (simp add: loop_inv_def set_total_chunks_def list_all_iff sorted_wrt_map comp_def)

lemma covered_set_total_chunks: "covered (set_total_chunks chunks) p = covered chunks p"
  by (simp add: covered_def set_total_chunks_def list_ex_iff)

lemma loop_inv_start: "loop_inv tx 0 0 []"
  by (simp add: loop_inv_def)

lemma chunk_text_inv:
  assumes "chunk_text cfg text filename chunk_size_arg chunk_overlap_arg = Some chunks"
    and "0 \<le> or_setting chunk_size_arg (settings_chunk_size cfg)"
  shows "\<exists>e. loop_inv text e (int (length chunks)) chunks"
proof (cases "int (length text) \<le> or_setting chunk_size_arg (settings_chunk_size cfg)")
  case True
  with assms(1) have "loop_inv text (int (length text)) (int (length chunks)) chunks"
    by (auto simp: chunk_text_def Let_def loop_inv_def)
  then show ?thesis ..
next
  case False
  with assms(1) obtain r where r: "chunk_loop text filename
      (or_setting chunk_size_arg (settings_chunk_size cfg))
      (or_setting chunk_overlap_arg (settings_chunk_overlap cfg)) 0 0 [] = Some r"
    and c: "chunks = set_total_chunks r"
    by (auto simp: chunk_text_def Let_def)
  from chunk_loop_inv [OF r assms(2) loop_inv_start] c show ?thesis
    by (simp add: loop_inv_set_total_chunks set_total_chunks_fields)
qed

lemma chunk_text_returns:
  assumes "1 \<le> or_setting chunk_size_arg (settings_chunk_size cfg)"
  shows "\<exists>chunks. chunk_text cfg text filename chunk_size_arg chunk_overlap_arg = Some chunks"
  using chunk_loop_terminates [OF assms, of "text" filename
      "or_setting chunk_overlap_arg (settings_chunk_overlap cfg)" 0 0 "[]"]
  by (auto simp: chunk_text_def Let_def)

lemma loop_inv_ranges:
  assumes "loop_inv tx e n chunks"
  shows "map chunk_index chunks = map int [0..<length chunks]"
    and "\<forall>c\<in>set chunks. 0 \<le> start_char c \<and> start_char c \<le> end_char c \<and> end_char c \<le> int (length tx)"
    and "sorted_wrt (\<lambda>a b. end_char a \<le> start_char b) chunks"
  using assms by (simp_all add: loop_inv_def list_all_iff)

lemma loop_inv_sorted:
  assumes "loop_inv tx e n chunks"
  shows "sorted (map start_char chunks)" and "sorted (map end_char chunks)"
proof -
  note r = loop_inv_ranges [OF assms]
  have "sorted_wrt (\<lambda>a b. start_char a \<le> start_char b) chunks"
    using r(2) by (intro sorted_wrt_mono_rel [OF _ r(3)]) force
  then show "sorted (map start_char chunks)" by (simp add: sorted_map)
  have "sorted_wrt (\<lambda>a b. end_char a \<le> end_char b) chunks"
    using r(2) by (intro sorted_wrt_mono_rel [OF _ r(3)]) force
  then show "sorted (map end_char chunks)" by (simp add: sorted_map)
qed

lemma loop_inv_adjacent:
  assumes "loop_inv tx e n chunks" and "Suc i < length chunks"
  shows "end_char (chunks ! i) \<le> start_char (chunks ! Suc i)"
  using sorted_wrt_nth_less [OF loop_inv_ranges(3) [OF assms(1)], of i "Suc i"] assms(2) by simp

subsection \<open>Configurations with a negative chunk size\<close>

text \<open>
  With a negative chunk size that is below the overlap, the cursor of a non-empty text
  never reaches the end: the loop does not return. In every other configuration the
  cursor never moves backwards.
\<close>

lemma rfind_upper:
  assumes "sub \<noteq> []"
  shows "rfind tx sub i j = - 1 \<or> rfind tx sub i j < int (py_index (length tx) j)"
proof -
  define a where "a = py_index (length tx) i"
  define b where "b = py_index (length tx) j"
  show ?thesis
  proof (cases "b < a + length sub")
    case True
    then show ?thesis by (simp add: rfind_def a_def b_def)
  next
    case False
    then have r: "rfind tx sub i j = rfind_down tx sub a (Suc (b - a - length sub))"
      by (simp add: rfind_def a_def b_def Let_def)
    from assms have "0 < length sub" by simp
    with False have "int (a + Suc (b - a - length sub)) \<le> int b" by linarith
    with rfind_down_range [of tx sub a "Suc (b - a - length sub)"] r
    show ?thesis unfolding b_def by linarith
  qed
qed

lemma best_break_of_upper:
  "best_break_of tx s e = - 1 \<or> best_break_of tx s e < int (py_index (length tx) e)"
proof -
  have step: "\<And>sub best. sub \<noteq> [] \<Longrightarrow> best = - 1 \<or> best < int (py_index (length tx) e) \<Longrightarrow>
     (let pos = rfind tx sub s e in if pos > best then pos else best) = - 1 \<or>
     (let pos = rfind tx sub s e in if pos > best then pos else best) < int (py_index (length tx) e)"
    using rfind_upper [of _ tx s e] by (auto simp add: Let_def)
  show ?thesis
    unfolding best_break_of_def sentence_endings_def fold_simps
    by (intro step) simp_all
qed

lemma py_index_below:
  assumes "e < int n"
  shows "int (py_index n e) \<le> max 0 (int n - 1)"
  using assms by (auto simp: py_index_def)

lemma cut_end_stays_inside:
  assumes "chunk_size < 0" and "start_pos < int (length tx)" and "tx \<noteq> []"
  shows "cut_end tx chunk_size start_pos < int (length tx)"
proof -
  define e where "e = min (start_pos + chunk_size) (int (length tx))"
  define s where "s = max (e - 100) start_pos"
  from assms have e: "e < int (length tx)" by (simp add: e_def)
  from assms(3) have n: "1 \<le> int (length tx)" by (cases tx) simp_all
  from best_break_of_upper [of tx s e] py_index_below [OF e] n
  have "best_break_of tx s e + 1 < int (length tx)" by linarith
  with e show ?thesis
    by (simp add: cut_end_def Let_def e_def [symmetric] s_def [symmetric])
qed

lemma chunk_loop_never_returns:
  assumes run: "chunk_loop tx filename chunk_size chunk_overlap start_pos idx chunks = Some result"
    and "chunk_size < 0" and "chunk_size < chunk_overlap"
    and "start_pos < int (length tx)" and "tx \<noteq> []"
  shows False
proof -
  have "chunk_size < 0 \<and> chunk_size < chunk_overlap \<and> start_pos < int (length tx) \<and> tx \<noteq> []
        \<longrightarrow> False"
  proof (rule chunk_loop.raw_induct [where P = "\<lambda>tx fn cs ov st i cks res.
           cs < 0 \<and> cs < ov \<and> st < int (length tx) \<and> tx \<noteq> [] \<longrightarrow> False", OF _ run], goal_cases)
    case (1 loop tx fn cs ov st i cks res)
    show ?case
    proof
      assume a: "cs < 0 \<and> cs < ov \<and> st < int (length tx) \<and> tx \<noteq> []"
      define end_pos where "end_pos = cut_end tx cs st"
      define next_pos where "next_pos = max (st + cs - ov) end_pos"
      define chunk_content where "chunk_content = strip (slice tx st end_pos)"
      from a have "end_pos < int (length tx)"
        using cut_end_stays_inside [of cs st tx] by (simp add: end_pos_def)
      with a have nx: "next_pos < int (length tx)" by (simp add: next_pos_def)
      show False
      proof (cases "chunk_content = []")
        case True
        with a 1(2) have "loop tx fn cs ov next_pos i cks = Some res"
          by (simp add: Let_def end_pos_def next_pos_def chunk_content_def)
        with 1(1) a nx show False by blast
      next
        case False
        with a 1(2) have "loop tx fn cs ov next_pos (i + 1)
              (cks @ [new_chunk fn chunk_content i st end_pos]) = Some res"
          by (simp add: Let_def end_pos_def next_pos_def chunk_content_def)
        with 1(1) a nx show False by blast
      qed
    qed
  qed
  with assms show False by blast
qed

lemma chunk_loop_ends_before:
  assumes run: "chunk_loop tx filename chunk_size chunk_overlap start_pos idx chunks = Some result"
    and "0 \<le> chunk_size \<or> chunk_overlap \<le> chunk_size"
    and "ends_before start_pos chunks"
  shows "sorted_wrt (\<lambda>a b. end_char a \<le> start_char b) result"
proof -
  have "(0 \<le> chunk_size \<or> chunk_overlap \<le> chunk_size) \<longrightarrow> ends_before start_pos chunks \<longrightarrow>
        sorted_wrt (\<lambda>a b. end_char a \<le> start_char b) result"
  proof (rule chunk_loop.raw_induct [where P = "\<lambda>tx fn cs ov st i cks res.
           (0 \<le> cs \<or> ov \<le> cs) \<longrightarrow> ends_before st cks \<longrightarrow>
           sorted_wrt (\<lambda>a b. end_char a \<le> start_char b) res", OF _ run], goal_cases)
    case (1 loop tx fn cs ov st i cks res)
    show ?case
    proof (intro impI)
      assume c: "0 \<le> cs \<or> ov \<le> cs" and inv: "ends_before st cks"
      show "sorted_wrt (\<lambda>a b. end_char a \<le> start_char b) res"
      proof (cases "st < int (length tx)")
        case False
        with 1(2) inv show ?thesis by (simp add: ends_before_def)
      next
        case True
        define end_pos where "end_pos = cut_end tx cs st"
        define next_pos where "next_pos = max (st + cs - ov) end_pos"
        define chunk_content where "chunk_content = strip (slice tx st end_pos)"
        have nx: "end_pos \<le> next_pos" by (simp add: next_pos_def)
        have mono: "st \<le> next_pos"
          using c cut_end_ge [of cs st tx] True by (auto simp: next_pos_def end_pos_def)
        show ?thesis
        proof (cases "chunk_content = []")
          case True
          with \<open>st < int (length tx)\<close> 1(2)
          have "loop tx fn cs ov next_pos i cks = Some res"
            by (simp add: Let_def end_pos_def next_pos_def chunk_content_def)
          moreover have "ends_before next_pos cks"
            using inv mono by (auto simp: ends_before_def list_all_iff)
          ultimately show ?thesis using 1(1) c by blast
        next
          case False
          with \<open>st < int (length tx)\<close> 1(2)
          have "loop tx fn cs ov next_pos (i + 1)
                  (cks @ [new_chunk fn chunk_content i st end_pos]) = Some res"
            by (simp add: Let_def end_pos_def next_pos_def chunk_content_def)
          moreover have "ends_before next_pos (cks @ [new_chunk fn chunk_content i st end_pos])"
            using inv mono nx
            by (auto simp: ends_before_def list_all_iff sorted_wrt_append new_chunk_def)
          ultimately show ?thesis using 1(1) c by blast
        qed
      qed
    qed
  qed
  with assms(2,3) show ?thesis by blast
qed

lemma chunk_text_adjacent:
  assumes run: "chunk_text cfg tx filename chunk_size_arg chunk_overlap_arg = Some chunks"
  shows "sorted_wrt (\<lambda>a b. end_char a \<le> start_char b) chunks"
proof -
  let ?cs = "or_setting chunk_size_arg (settings_chunk_size cfg)"
  let ?ov = "or_setting chunk_overlap_arg (settings_chunk_overlap cfg)"
  show ?thesis
  proof (cases "int (length tx) \<le> ?cs")
    case True
    with run show ?thesis by (auto simp: chunk_text_def Let_def)
  next
    case False
    with run obtain r where r: "chunk_loop tx filename ?cs ?ov 0 0 [] = Some r"
      and c: "chunks = set_total_chunks r"
      by (auto simp: chunk_text_def Let_def)
    have "sorted_wrt (\<lambda>a b. end_char a \<le> start_char b) r"
    proof (cases "0 \<le> ?cs \<or> ?ov \<le> ?cs")
      case True
      then show ?thesis
        by (rule chunk_loop_ends_before [OF r]) (simp add: ends_before_def)
    next
      case neg: False
      show ?thesis
      proof (cases "tx = []")
        case True
        with r have "r = []" by (subst (asm) chunk_loop.simps) simp
        then show ?thesis by simp
      next
        case False
        with chunk_loop_never_returns [OF r] neg show ?thesis by simp
      qed
    qed
    with c show ?thesis by (simp add: set_total_chunks_def sorted_wrt_map)
  qed
qed

lemma chunk_text_negative_size:
  assumes run: "chunk_text cfg tx filename chunk_size_arg chunk_overlap_arg = Some chunks"
    and "or_setting chunk_size_arg (settings_chunk_size cfg) < 0"
    and "or_setting chunk_size_arg (settings_chunk_size cfg) <
         or_setting chunk_overlap_arg (settings_chunk_overlap cfg)"
  shows "chunks = []"
proof -
  let ?cs = "or_setting chunk_size_arg (settings_chunk_size cfg)"
  let ?ov = "or_setting chunk_overlap_arg (settings_chunk_overlap cfg)"
  from assms(2) have "\<not> int (length tx) \<le> ?cs" by simp
  with run obtain r where r: "chunk_loop tx filename ?cs ?ov 0 0 [] = Some r"
    and c: "chunks = set_total_chunks r"
    by (auto simp: chunk_text_def Let_def)
  have "r = []"
  proof (cases "tx = []")
    case True
    with r show ?thesis by (subst (asm) chunk_loop.simps) simp
  next
    case False
    with chunk_loop_never_returns [OF r assms(2,3)] show ?thesis by simp
  qed
  with c show ?thesis by (simp add: set_total_chunks_def)
qed

text \<open>The branch for a text no longer than the chunk size, in general.\<close>

lemma chunk_text_short_text:
  assumes "int (length tx) \<le> or_setting chunk_size_arg (settings_chunk_size cfg)"
  shows "chunk_text cfg tx filename chunk_size_arg chunk_overlap_arg =
           Some [\<lparr>content = tx, chunk_index = 0, start_char = 0, end_char = int (length tx),
                  metadata = [(''filename'', MStr filename), (''total_chunks'', MInt 1)]\<rparr>]"
  using assms by (simp add: chunk_text_def Let_def)

text \<open>
  When chunk size and overlap are both negative a chunk can end before it starts:
  \<^verbatim>\<open>text[0:-1]\<close> of \<^verbatim>\<open>abc\<close> is \<^verbatim>\<open>ab\<close>, recorded with \<open>end_char = -1\<close>.
\<close>

lemma chunk_text_negative_configuration:
  "chunk_text default_settings ''abc'' ''f'' (Some (- 1)) (Some (- 100)) =
     Some [\<lparr>content = ''ab'', chunk_index = 0, start_char = 0, end_char = - 1,
            metadata = [(''filename'', MStr ''f''), (''chunk_size'', MInt 2),
                        (''total_chunks'', MInt 1)]\<rparr>]"
  by code_simp

section \<open>The claims about the chunker\<close>

text \<open>
  Claim C5. Let chunk size and overlap be character counts; it is enough that one of
  the two is not negative. Then every chunk sequence that \<open>chunk_text\<close> returns has the
  indices \<open>0, \<dots>, n - 1\<close> in emission order, \<open>start_char \<le> end_char\<close> in every chunk, and
  both offsets non-decreasing along the sequence. A chunk size of at least one character
  makes the call return; with a chunk size of zero and a non-empty text the loop can fail
  to advance, and then nothing is returned.
\<close>

theorem chunk_text_indices_and_offsets:
  assumes "0 \<le> or_setting chunk_size_arg (settings_chunk_size cfg) \<or>
           0 \<le> or_setting chunk_overlap_arg (settings_chunk_overlap cfg)"
  shows "(\<forall>chunks. chunk_text cfg text filename chunk_size_arg chunk_overlap_arg = Some chunks \<longrightarrow>
            map chunk_index chunks = map int [0..<length chunks] \<and>
            (\<forall>c\<in>set chunks. start_char c \<le> end_char c) \<and>
            sorted (map start_char chunks) \<and> sorted (map end_char chunks)) \<and>
         (1 \<le> or_setting chunk_size_arg (settings_chunk_size cfg) \<longrightarrow>
            chunk_text cfg text filename chunk_size_arg chunk_overlap_arg \<noteq> None)"
proof (intro conjI allI impI)
  fix chunks
  assume run: "chunk_text cfg text filename chunk_size_arg chunk_overlap_arg = Some chunks"
  have "map chunk_index chunks = map int [0..<length chunks] \<and>
        (\<forall>c\<in>set chunks. start_char c \<le> end_char c) \<and>
        sorted (map start_char chunks) \<and> sorted (map end_char chunks)"
  proof (cases "0 \<le> or_setting chunk_size_arg (settings_chunk_size cfg)")
    case True
    from chunk_text_inv [OF run True]
    obtain e where inv: "loop_inv text e (int (length chunks)) chunks" ..
    from loop_inv_ranges(1,2) [OF inv] loop_inv_sorted [OF inv] show ?thesis by simp
  next
    case False
    with assms have "chunks = []" by (intro chunk_text_negative_size [OF run]) simp_all
    then show ?thesis by simp
  qed
  then show "map chunk_index chunks = map int [0..<length chunks]"
    and "\<forall>c\<in>set chunks. start_char c \<le> end_char c"
    and "sorted (map start_char chunks)" and "sorted (map end_char chunks)" by simp_all
next
  assume "1 \<le> or_setting chunk_size_arg (settings_chunk_size cfg)"
  from chunk_text_returns [OF this]
  show "chunk_text cfg text filename chunk_size_arg chunk_overlap_arg \<noteq> None" by simp
qed

text \<open>
  The text \<^verbatim>\<open>a.bbbbbbbbbbbb\<close> with windows of five characters and no overlap: the first
  window is cut after the full stop, and three chunks come out.
\<close>

theorem chunk_text_indices_and_offsets_witness:
  "0 \<le> or_setting (Some 5) (settings_chunk_size default_settings) \<and>
   chunk_text default_settings ''a.bbbbbbbbbbbb'' ''f'' (Some 5) (Some 0) = Some three_chunks \<and>
   map chunk_index three_chunks = [0, 1, 2] \<and>
   list_all (\<lambda>c. start_char c \<le> end_char c) three_chunks \<and>
   sorted (map start_char three_chunks) \<and> sorted (map end_char three_chunks)"
proof -
  have h: "0 \<le> or_setting (Some 5) (settings_chunk_size default_settings)"
    by (simp add: or_setting_def)
  have e: "chunk_text default_settings ''a.bbbbbbbbbbbb'' ''f'' (Some 5) (Some 0) = Some three_chunks"
    by code_simp
  have n: "map int [0..<length three_chunks] = [0, 1, 2]"
    by (simp add: three_chunks_def upt_rec)
  from chunk_text_indices_and_offsets [OF disjI1 [OF h], of "''a.bbbbbbbbbbbb''" "''f''" "Some 0"] e n h
  show ?thesis by (simp add: list_all_iff)
qed

text \<open>
  Claim C8. For every text longer than the chunk size and every chunk size and overlap,
  every chunk of a returned sequence starts at or after the end of the chunk before it:
  adjacent chunks share no character, whatever the configured overlap, because the cursor
  moves to the larger of \<open>start_pos + chunk_size - chunk_overlap\<close> and the cut position.
  A chunk size of at least one character makes the call return.
\<close>

theorem chunk_text_adjacent_disjoint:
  assumes "or_setting chunk_size_arg (settings_chunk_size cfg) < int (length text)"
  shows "(\<forall>chunks. chunk_text cfg text filename chunk_size_arg chunk_overlap_arg = Some chunks \<longrightarrow>
            (\<forall>i. Suc i < length chunks \<longrightarrow>
                 end_char (chunks ! i) \<le> start_char (chunks ! Suc i))) \<and>
         (1 \<le> or_setting chunk_size_arg (settings_chunk_size cfg) \<longrightarrow>
            chunk_text cfg text filename chunk_size_arg chunk_overlap_arg \<noteq> None)"
proof (intro conjI allI impI)
  fix chunks i
  assume "chunk_text cfg text filename chunk_size_arg chunk_overlap_arg = Some chunks"
    and i: "Suc i < length chunks"
  from sorted_wrt_nth_less [OF chunk_text_adjacent [OF this(1)], of i "Suc i"] i
  show "end_char (chunks ! i) \<le> start_char (chunks ! Suc i)" by simp
next
  assume "1 \<le> or_setting chunk_size_arg (settings_chunk_size cfg)"
  from chunk_text_returns [OF this]
  show "chunk_text cfg text filename chunk_size_arg chunk_overlap_arg \<noteq> None" by simp
qed

text \<open>The three chunks of \<^verbatim>\<open>a.bbbbbbbbbbbb\<close> again: \<open>2 \<le> 5\<close> and \<open>10 \<le> 10\<close>.\<close>

theorem chunk_text_adjacent_disjoint_witness:
  "0 \<le> or_setting (Some 5) (settings_chunk_size default_settings) \<and>
   or_setting (Some 5) (settings_chunk_size default_settings) < int (length ''a.bbbbbbbbbbbb'') \<and>
   chunk_text default_settings ''a.bbbbbbbbbbbb'' ''f'' (Some 5) (Some 0) = Some three_chunks \<and>
   end_char (three_chunks ! 0) \<le> start_char (three_chunks ! 1) \<and>
   end_char (three_chunks ! 1) \<le> start_char (three_chunks ! 2)"
proof -
  have h: "0 \<le> or_setting (Some 5) (settings_chunk_size default_settings)"
    and l: "or_setting (Some 5) (settings_chunk_size default_settings) < int (length ''a.bbbbbbbbbbbb'')"
    by (simp_all add: or_setting_def)
  have e: "chunk_text default_settings ''a.bbbbbbbbbbbb'' ''f'' (Some 5) (Some 0) = Some three_chunks"
    by code_simp
  have n: "Suc 0 < length three_chunks" "Suc 1 < length three_chunks"
    by (simp_all add: three_chunks_def)
  from chunk_text_adjacent_disjoint [OF l, of "''f''" "Some 0"] e n h l
  show ?thesis by (metis One_nat_def Suc_1)
qed

text \<open>
  Claim C4, as stated, fails: a window that holds white space only is skipped, so its
  positions lie in no chunk's range. In three blanks followed by a letter, with windows
  of two characters, position 0 is not covered.
\<close>

theorem chunk_text_coverage_counterexample:
  "chunk_text default_settings ''   a'' ''f'' (Some 2) (Some 0) = Some letter_after_blanks \<and>
   0 < int (length ''   a'') \<and> \<not> covered letter_after_blanks 0"
proof -
  have "chunk_text default_settings ''   a'' ''f'' (Some 2) (Some 0) = Some letter_after_blanks"
    by code_simp
  then show ?thesis by (simp add: covered_def letter_after_blanks_def)
qed

text \<open>
  Claim C4, amended. Let the chunk size be at least 1 and the overlap a character count
  with \<open>chunk_size - chunk_overlap \<le> 2\<close> or \<open>chunk_overlap \<ge> 99\<close> (the configured
  1000 and 200 are such a pair). Then \<open>chunk_text\<close> returns, every position of the text
  that holds a character other than white space lies in the range of some chunk, every
  range lies inside the text, the start positions are non-decreasing, and adjacent chunks
  do not overlap at all.
\<close>

theorem chunk_text_covers_nonspace:
  assumes "1 \<le> or_setting chunk_size_arg (settings_chunk_size cfg)"
    and "0 \<le> or_setting chunk_overlap_arg (settings_chunk_overlap cfg)"
    and "or_setting chunk_size_arg (settings_chunk_size cfg) -
           or_setting chunk_overlap_arg (settings_chunk_overlap cfg) \<le> 2 \<or>
         99 \<le> or_setting chunk_overlap_arg (settings_chunk_overlap cfg)"
  shows "\<exists>chunks. chunk_text cfg text filename chunk_size_arg chunk_overlap_arg = Some chunks \<and>
           (\<forall>p<length text. \<not> isspace (text ! p) \<longrightarrow> covered chunks (int p)) \<and>
           (\<forall>c\<in>set chunks. 0 \<le> start_char c \<and> end_char c \<le> int (length text)) \<and>
           sorted (map start_char chunks) \<and>
           (\<forall>i. Suc i < length chunks \<longrightarrow> end_char (chunks ! i) \<le> start_char (chunks ! Suc i))"
proof -
  let ?cs = "or_setting chunk_size_arg (settings_chunk_size cfg)"
  let ?ov = "or_setting chunk_overlap_arg (settings_chunk_overlap cfg)"
  from chunk_text_returns [OF assms(1)] obtain chunks
    where run: "chunk_text cfg text filename chunk_size_arg chunk_overlap_arg = Some chunks" by blast
  from assms(1) have cs0: "0 \<le> ?cs" by simp
  from chunk_text_inv [OF run cs0] obtain e where inv: "loop_inv text e (int (length chunks)) chunks" ..
  have cov: "covered chunks (int p)" if p: "p < length text" "\<not> isspace (text ! p)" for p
  proof (cases "int (length text) \<le> ?cs")
    case True
    with run p(1) show ?thesis by (auto simp: chunk_text_def Let_def covered_def)
  next
    case False
    with run obtain r where r: "chunk_loop text filename ?cs ?ov 0 0 [] = Some r"
      and c: "chunks = set_total_chunks r"
      by (auto simp: chunk_text_def Let_def)
    have "\<forall>p. 0 \<le> p \<and> p < int (length text) \<and> \<not> isspace (text ! nat p) \<longrightarrow> covered r p"
      by (rule chunk_loop_covers [OF r cs0 assms(2,3)]) auto
    with p c show ?thesis by (simp add: covered_set_total_chunks)
  qed
  have "\<forall>c\<in>set chunks. 0 \<le> start_char c \<and> end_char c \<le> int (length text)"
    using loop_inv_ranges(2) [OF inv] by simp
  moreover have "\<forall>i. Suc i < length chunks \<longrightarrow> end_char (chunks ! i) \<le> start_char (chunks ! Suc i)"
    using loop_inv_adjacent [OF inv] by simp
  ultimately show ?thesis using run cov loop_inv_sorted(1) [OF inv] by blast
qed

text \<open>Three blanks and a letter: position 3 holds the letter and is covered.\<close>

theorem chunk_text_covers_nonspace_witness:
  "1 \<le> or_setting (Some 2) (settings_chunk_size default_settings) \<and>
   0 \<le> or_setting (Some 0) (settings_chunk_overlap default_settings) \<and>
   or_setting (Some 2) (settings_chunk_size default_settings) -
     or_setting (Some 0) (settings_chunk_overlap default_settings) \<le> 2 \<and>
   chunk_text default_settings ''   a'' ''f'' (Some 2) (Some 0) = Some letter_after_blanks \<and>
   \<not> isspace (''   a'' ! 3) \<and> covered letter_after_blanks 3 \<and>
   sorted (map start_char letter_after_blanks)"
proof -
  have h: "1 \<le> or_setting (Some 2) (settings_chunk_size default_settings)"
    "0 \<le> or_setting (Some 0) (settings_chunk_overlap default_settings)"
    "or_setting (Some 2) (settings_chunk_size default_settings) -
       or_setting (Some 0) (settings_chunk_overlap default_settings) \<le> 2 \<or>
     99 \<le> or_setting (Some 0) (settings_chunk_overlap default_settings)"
    by (simp_all add: or_setting_def)
  have e: "chunk_text default_settings ''   a'' ''f'' (Some 2) (Some 0) = Some letter_after_blanks"
    by code_simp
  have a: "(3::nat) < length ''   a''" "\<not> isspace (''   a'' ! 3)"
    by (simp_all add: isspace_def)
  from chunk_text_covers_nonspace [OF h, of "''   a''" "''f''"] e a h
  show ?thesis by (auto simp: or_setting_def)
qed

text \<open>
  Outside the configurations of the amended claim the cursor can jump over characters
  that are not white space: in \<^verbatim>\<open>a.bbbbbbbbbbbb\<close> with chunk size 5 and overlap 0 the
  first window is cut after the full stop, at 2, and the cursor moves to 5.
\<close>

lemma three_chunks_gap: "2 < int (length ''a.bbbbbbbbbbbb'') \<and> \<not> covered three_chunks 2"
  by (simp add: covered_def three_chunks_def)

text \<open>
  Claim C3 says that a text no longer than the chunk size comes back as exactly one
  chunk holding the trimmed text, with \<open>chunk_index = 0\<close>, \<open>start_char = 0\<close> and
  \<open>end_char = len(text)\<close>. The code at the text made of a blank and a letter, under the
  configured chunk size of 1000: one chunk with these three values, but its content is
  the text as it is, blank included, while the trimmed text is the letter alone. The
  branch for longer texts trims every chunk.
\<close>

theorem chunk_text_short_text_untrimmed:
  "int (length '' a'') \<le> or_setting None (settings_chunk_size default_settings) \<and>
   chunk_text default_settings '' a'' ''f'' None None =
     Some [\<lparr>content = '' a'', chunk_index = 0, start_char = 0, end_char = 2,
            metadata = [(''filename'', MStr ''f''), (''total_chunks'', MInt 1)]\<rparr>] \<and>
   strip '' a'' = ''a'' \<and> '' a'' \<noteq> strip '' a''"
  by (simp add: chunk_text_def or_setting_def default_settings_def strip_def isspace_def)

section \<open>Properties of the services\<close>

lemma and_then_Inr: "and_then r f = Inr y \<longleftrightarrow> (\<exists>x. r = Inr x \<and> f x = Inr y)"
  by (cases r) (simp_all add: and_then_def)

lemma py_nth_Inr: "py_nth xs i = Inr x \<longleftrightarrow> i < length xs \<and> x = xs ! i"
  by (auto simp: py_nth_def)

lemma collect_Inr:
  "collect f xs = Inr ys \<Longrightarrow> length ys = length xs \<and> (\<forall>i<length xs. f (xs ! i) = Inr (ys ! i))"
proof (induction xs arbitrary: ys)
  case Nil
  then show ?case by simp
next
  case (Cons x xs)
  from Cons.prems obtain y zs where y: "f x = Inr y" and zs: "collect f xs = Inr zs"
    and ys: "ys = y # zs"
    by (auto split: sum.splits)
  from Cons.IH [OF zs] y ys show ?case by (auto simp: nth_Cons split: nat.splits)
qed

lemma format_row_score:
  assumes "format_row results i = Inr c"
  shows "qr_distances results \<noteq> [] \<and> i < length (qr_distances results ! 0) \<and>
         similarity_score c = 1 - qr_distances results ! 0 ! i"
  using assms by (auto simp: format_row_def and_then_Inr py_nth_Inr)

lemma search_similar_chunks_cases:
  "search_similar_chunks svc query document_ids top_k = [] \<or>
   (\<exists>emb results.
      encode svc [query] = Inr emb \<and>
      collection_query svc emb top_k (where_clause document_ids) = Inr results \<and>
      qr_documents results \<noteq> [] \<and> qr_distances results \<noteq> [] \<and>
      length (search_similar_chunks svc query document_ids top_k) =
        length (qr_documents results ! 0) \<and>
      length (search_similar_chunks svc query document_ids top_k) \<le>
        length (qr_distances results ! 0) \<and>
      (\<forall>i<length (search_similar_chunks svc query document_ids top_k).
         similarity_score (search_similar_chunks svc query document_ids top_k ! i) =
           1 - qr_distances results ! 0 ! i))"
proof (cases "search_similar_chunks svc query document_ids top_k = []")
  case True
  then show ?thesis by simp
next
  case False
  let ?found = "search_similar_chunks svc query document_ids top_k"
  from False obtain emb where emb: "encode svc [query] = Inr emb"
    by (auto simp: search_similar_chunks_def split: sum.splits)
  with False obtain results
    where res: "collection_query svc emb top_k (where_clause document_ids) = Inr results"
    by (auto simp: search_similar_chunks_def split: sum.splits)
  with emb False have docs: "qr_documents results \<noteq> []"
    by (auto simp: search_similar_chunks_def split: sum.splits if_splits)
  with emb res False
  have col: "collect (format_row results) [0..<length (qr_documents results ! 0)] = Inr ?found"
    by (auto simp: search_similar_chunks_def split: sum.splits)
  from collect_Inr [OF col]
  have len: "length ?found = length (qr_documents results ! 0)"
    and rows: "\<forall>i<length (qr_documents results ! 0). format_row results i = Inr (?found ! i)"
    by auto
  from False have "length ?found \<noteq> 0" by simp
  with len have "0 < length (qr_documents results ! 0)" by simp
  with rows have "format_row results 0 = Inr (?found ! 0)" by blast
  from format_row_score [OF this] have dists: "qr_distances results \<noteq> []" by simp
  have all: "\<forall>i<length ?found. i < length (qr_distances results ! 0) \<and>
          similarity_score (?found ! i) = 1 - qr_distances results ! 0 ! i"
    using rows len format_row_score by auto
  have "length ?found \<le> length (qr_distances results ! 0)"
  proof (rule ccontr)
    assume "\<not> length ?found \<le> length (qr_distances results ! 0)"
    then have "length (qr_distances results ! 0) < length ?found" by simp
    with all have "length (qr_distances results ! 0) < length (qr_distances results ! 0)" by blast
    then show False by simp
  qed
  with all show ?thesis using emb res docs dists len by blast
qed

lemma two_rows_found:
  "search_similar_chunks silent_model_services ''q'' None 5 = two_hits"
  by (simp add: search_similar_chunks_def silent_model_services_def where_clause_def two_rows_def
        format_row_def and_then_def py_nth_def py_key_def two_hits_def upt_rec)

lemma search_similar_chunks_empty_ids:
  "search_similar_chunks svc query (Some []) top_k = search_similar_chunks svc query None top_k"
proof -
  have h: "where_clause (Some []) = where_clause None" by (simp add: where_clause_def)
  show ?thesis unfolding search_similar_chunks_def h by (rule refl)
qed

lemma ask_question_with_returns:
  "\<exists>r w'. ask_question_with search generate s w question document_ids max_sources
            start_time end_time timestamp = (Inr r, w')"
proof (cases "ask_question_try search generate s w question document_ids max_sources
                start_time end_time timestamp")
  case (Pair outcome w')
  then show ?thesis by (cases outcome) (simp_all add: ask_question_with_def)
qed

lemma ask_question_try_search_raises:
  assumes "search question document_ids max_sources = Inl e"
  shows "ask_question_try search generate s w question document_ids max_sources
           start_time end_time timestamp = (Inl e, w)"
  using assms by (simp add: ask_question_try_def)

lemma ask_question_try_generate_raises:
  assumes "search question document_ids max_sources = Inr found" and "found \<noteq> []"
    and "generate w question (context_of found) = (Inl e, w')"
  shows "ask_question_try search generate s w question document_ids max_sources
           start_time end_time timestamp = (Inl e, w')"
  using assms by (simp add: ask_question_try_def context_of_def Let_def)

lemma ask_question_nothing_found:
  assumes "search_similar_chunks svc question document_ids max_sources = []"
  shows "ask_question svc s w question document_ids max_sources start_time end_time timestamp =
      (Inr (\<lparr>resp_question = question, resp_answer = no_information, resp_sources = [],
              resp_response_time = end_time - start_time, resp_timestamp = timestamp,
              resp_document_ids = ids_or_empty document_ids\<rparr>, s), w)"
  using assms
  by (simp add: ask_question_def ask_question_with_def ask_question_try_def own_search_def
        no_information_def)

lemma ask_question_model_raises:
  assumes "search_similar_chunks svc question document_ids max_sources = found" and "found \<noteq> []"
    and "generate_content svc (full_prompt_of question (context_of found)) = Inl e"
  shows "ask_question svc s w question document_ids max_sources start_time end_time timestamp =
      (Inr (\<lparr>resp_question = question, resp_answer = apology,
              resp_sources = map source_of found,
              resp_response_time = end_time - start_time, resp_timestamp = timestamp,
              resp_document_ids = ids_or_empty document_ids\<rparr>,
            s\<lparr>chat_history :=
                fold (append_history
                        \<lparr>resp_question = question, resp_answer = apology,
                         resp_sources = map source_of found,
                         resp_response_time = end_time - start_time, resp_timestamp = timestamp,
                         resp_document_ids = ids_or_empty document_ids\<rparr>)
                  (ids_or_empty document_ids) (chat_history s)\<rparr>),
       w\<lparr>prompts_sent := prompts_sent w @ [full_prompt_of question (context_of found)]\<rparr>)"
proof -
  from assms(3) have g: "generate_response svc w question (context_of found) =
      (apology, w\<lparr>prompts_sent := prompts_sent w @ [full_prompt_of question (context_of found)]\<rparr>)"
    by (simp add: generate_response_def call_model_def apology_def)
  have h: "(if ids_or_empty document_ids \<noteq> [] then
              fold (append_history r) (ids_or_empty document_ids) (chat_history s)
            else chat_history s) =
           fold (append_history r) (ids_or_empty document_ids) (chat_history s)" for r
    by simp
  from assms(1,2) g show ?thesis
    by (simp add: ask_question_def ask_question_with_def ask_question_try_def own_search_def
          own_generate_def Let_def context_of_def [symmetric] h)
qed

lemma search_fails_empty:
  "encode svc [query] = Inl e \<Longrightarrow> search_similar_chunks svc query document_ids top_k = []"
  "encode svc [query] = Inr emb \<Longrightarrow>
   collection_query svc emb top_k (where_clause document_ids) = Inl e \<Longrightarrow>
   search_similar_chunks svc query document_ids top_k = []"
  by (simp_all add: search_similar_chunks_def)

lemma silent_model_fails:
  "generate_content silent_model_services (full_prompt_of ''q'' (context_of two_hits)) =
     Inl (Exception ''model unavailable'')"
  by (simp add: silent_model_services_def)

lemma offline_encode_fails:
  "encode offline_services [''q''] = Inl (Exception ''embedding model unavailable'')"
  by (simp add: offline_services_def)

lemma two_hits_nonempty: "two_hits \<noteq> []"
  by (simp add: two_hits_def)

lemma sample_saved:
  "save_uploaded_file sample_files ''uploads'' ''f1'' ''x'' ''a.txt'' = Inr ''uploads/f1.txt''"
  "save_uploaded_file sample_files ''uploads'' ''f2'' ''x'' ''a.txt'' = Inr ''uploads/f2.txt''"
  "save_uploaded_file sample_files ''uploads'' ''f3'' ''x'' ''a.txt'' = Inr ''uploads/f3.txt''"
  by code_simp+

lemma sample_extracted:
  "extract_text_from_file sample_files ''uploads/f1.txt'' ''a.txt'' = ([], txt_metadata [])"
  "extract_text_from_file sample_files ''uploads/f2.txt'' ''a.txt'' = (''   '', txt_metadata ''   '')"
  "extract_text_from_file sample_files ''uploads/f3.txt'' ''a.txt'' = (''hello'', txt_metadata ''hello'')"
  by code_simp+

text \<open>
  With two or more identifiers that are all registered, \<open>compare_documents\<close> does send a
  prompt to the generative model: the trace grows by one entry.
\<close>

lemma collect_total:
  "(\<forall>x\<in>set xs. \<exists>y. f x = Inr y) \<Longrightarrow> \<exists>ys. collect f xs = Inr ys"
  by (induction xs) auto

lemma document_lines_total:
  assumes "length doc_names = length limited_contents"
  shows "\<exists>doc_lines. document_lines limited_contents doc_names = Inr doc_lines"
  unfolding document_lines_def
proof (rule collect_total, rule ballI)
  fix x assume "x \<in> set (enumerate 0 limited_contents)"
  then have "fst x < length doc_names" using assms by (simp add: in_set_enumerate_eq)
  then show "\<exists>y. (case x of (i, c) \<Rightarrow> and_then (py_nth doc_names i)
                  (\<lambda>name. Inr (''Document '' @ str_nat (i + 1) @ '' ('' @ name @ ''): '' @ c))) = Inr y"
    by (cases x) (simp add: and_then_def py_nth_def)
qed

lemma gemini_compare_documents_sends_prompt:
  assumes "length doc_names = length doc_contents"
  shows "\<exists>prompt. prompts_sent (snd (gemini_compare_documents svc w doc_contents doc_names)) =
           prompts_sent w @ [prompt]"
proof -
  from document_lines_total [of doc_names "map (take 3000) doc_contents"] assms
  obtain doc_lines where "document_lines (map (take 3000) doc_contents) doc_names = Inr doc_lines"
    by auto
  then show ?thesis
    by (cases "generate_content svc (compare_prompt doc_lines)")
       (simp_all add: gemini_compare_documents_def call_model_def)
qed

lemma compare_documents_sends_prompt:
  assumes "2 \<le> length document_ids" and "gather_documents s document_ids = Inr gathered"
  shows "\<exists>prompt. prompts_sent (snd (compare_documents svc s w document_ids)) =
           prompts_sent w @ [prompt]"
proof -
  from gemini_compare_documents_sends_prompt [of "map snd gathered" "map fst gathered" svc w]
  obtain prompt where "prompts_sent (snd (gemini_compare_documents svc w (map fst gathered)
      (map snd gathered))) = prompts_sent w @ [prompt]" by auto
  with assms show ?thesis
    by (auto simp: compare_documents_def compare_documents_try_def Let_def split: prod.splits sum.splits)
qed

section \<open>The claims about the services\<close>

text \<open>
  Claim C1. Let the upload be saved and the text extracted. If the extracted text is
  empty, or chunking returns no chunk, or the insert into the vector index reports
  failure, then \<open>process_document\<close> raises (the message names the step that failed) and
  the state it hands back, document registry and chat history, is the state it was given.
\<close>

theorem process_document_failure_registers_nothing:
  assumes "save_uploaded_file fs (settings_upload_dir cfg) file_id file_content filename = Inr file_path"
    and "extract_text_from_file fs file_path filename = (extracted, md)"
  shows "(extracted = [] \<longrightarrow>
            process_document cfg fs svc s document_id file_id upload_date
                file_content filename content_type =
              Some (Inl (Exception ''Document processing failed: Failed to extract text from document''), s)) \<and>
         (extracted \<noteq> [] \<and> chunk_text cfg extracted filename None None = Some [] \<longrightarrow>
            process_document cfg fs svc s document_id file_id upload_date
                file_content filename content_type =
              Some (Inl (Exception ''Document processing failed: Failed to create text chunks''), s)) \<and>
         (\<forall>chunks. extracted \<noteq> [] \<and> chunk_text cfg extracted filename None None = Some chunks \<and>
              chunks \<noteq> [] \<and> \<not> add_document_chunks svc document_id chunks filename \<longrightarrow>
            process_document cfg fs svc s document_id file_id upload_date
                file_content filename content_type =
              Some (Inl (Exception ''Document processing failed: Failed to store document in vector database''), s))"
  using assms
  by (simp add: process_document_def process_document_try_def Let_def message_of_def)

text \<open>
  The three failures on sample data: a text file that reads as empty; a text of three
  blanks under windows of two characters, which yields no chunk; and the text
  \<^verbatim>\<open>hello\<close> with an embedding model that raises.
\<close>

theorem process_document_failure_registers_nothing_witness:
  "save_uploaded_file sample_files (settings_upload_dir default_settings) ''f1'' ''x'' ''a.txt'' =
     Inr ''uploads/f1.txt'' \<and>
   extract_text_from_file sample_files ''uploads/f1.txt'' ''a.txt'' = ([], txt_metadata []) \<and>
   process_document default_settings sample_files offline_services no_documents
       ''d1'' ''f1'' 0 ''x'' ''a.txt'' ''text/plain'' =
     Some (Inl (Exception ''Document processing failed: Failed to extract text from document''),
           no_documents) \<and>
   save_uploaded_file sample_files (settings_upload_dir narrow_settings) ''f2'' ''x'' ''a.txt'' =
     Inr ''uploads/f2.txt'' \<and>
   extract_text_from_file sample_files ''uploads/f2.txt'' ''a.txt'' = (''   '', txt_metadata ''   '') \<and>
   chunk_text narrow_settings ''   '' ''a.txt'' None None = Some [] \<and>
   process_document narrow_settings sample_files offline_services no_documents
       ''d1'' ''f2'' 0 ''x'' ''a.txt'' ''text/plain'' =
     Some (Inl (Exception ''Document processing failed: Failed to create text chunks''),
           no_documents) \<and>
   save_uploaded_file sample_files (settings_upload_dir default_settings) ''f3'' ''x'' ''a.txt'' =
     Inr ''uploads/f3.txt'' \<and>
   extract_text_from_file sample_files ''uploads/f3.txt'' ''a.txt'' = (''hello'', txt_metadata ''hello'') \<and>
   chunk_text default_settings ''hello'' ''a.txt'' None None = Some [hello_chunk] \<and>
   \<not> add_document_chunks offline_services ''d1'' [hello_chunk] ''a.txt'' \<and>
   process_document default_settings sample_files offline_services no_documents
       ''d1'' ''f3'' 0 ''x'' ''a.txt'' ''text/plain'' =
     Some (Inl (Exception ''Document processing failed: Failed to store document in vector database''),
           no_documents)"
proof -
  have d: "settings_upload_dir default_settings = ''uploads''"
    "settings_upload_dir narrow_settings = ''uploads''"
    by (simp_all add: default_settings_def narrow_settings_def)
  have s1: "save_uploaded_file sample_files (settings_upload_dir default_settings) ''f1'' ''x'' ''a.txt'' =
     Inr ''uploads/f1.txt''"
    and s2: "save_uploaded_file sample_files (settings_upload_dir narrow_settings) ''f2'' ''x'' ''a.txt'' =
     Inr ''uploads/f2.txt''"
    and s3: "save_uploaded_file sample_files (settings_upload_dir default_settings) ''f3'' ''x'' ''a.txt'' =
     Inr ''uploads/f3.txt''"
    unfolding d by (rule sample_saved)+
  have c2: "chunk_text narrow_settings ''   '' ''a.txt'' None None = Some []"
    by code_simp
  have c3: "chunk_text default_settings ''hello'' ''a.txt'' None None = Some [hello_chunk]"
    by (simp add: chunk_text_def or_setting_def default_settings_def hello_chunk_def)
  have a3: "\<not> add_document_chunks offline_services ''d1'' [hello_chunk] ''a.txt''"
    by (simp add: add_document_chunks_def offline_services_def)
  note t1 = process_document_failure_registers_nothing [OF s1 sample_extracted(1),
      of offline_services no_documents "''d1''" 0 "''text/plain''"]
  note t2 = process_document_failure_registers_nothing [OF s2 sample_extracted(2),
      of offline_services no_documents "''d1''" 0 "''text/plain''"]
  note t3 = process_document_failure_registers_nothing [OF s3 sample_extracted(3),
      of offline_services no_documents "''d1''" 0 "''text/plain''"]
  from t1 t2 t3 s1 s2 s3 sample_extracted c2 c3 a3 show ?thesis by simp
qed

text \<open>
  Claim C2, as stated, fails: a row at cosine distance 3/2, which lies between 0 and 2,
  is returned with the score \<open>1 - 3/2 = -1/2\<close>, outside \<open>[0, 1]\<close>.
\<close>

theorem similarity_score_counterexample:
  "search_similar_chunks silent_model_services ''q'' None 5 = two_hits \<and>
   qr_distances two_rows = [[1 / 2, 3 / 2]] \<and> (0::real) \<le> 3 / 2 \<and> (3 / 2 :: real) \<le> 2 \<and>
   similarity_score (two_hits ! 1) = 1 - 3 / 2 \<and>
   \<not> (0 \<le> similarity_score (two_hits ! 1))"
  using two_rows_found by (simp add: two_hits_def two_rows_def)

text \<open>
  Claim C2, amended. Let \<open>top_k\<close> be non-negative and let the index reply within its
  contract (at most \<open>top_k\<close> rows, distances ascending and between 0 and 2). Then
  \<open>search_similar_chunks\<close> returns at most \<open>top_k\<close> chunks, in descending order of score,
  every score lies between \<open>-1\<close> and \<open>1\<close>, and the scores are \<open>1 - distance\<close> of the
  first rows of the reply, in order (or nothing is returned).
\<close>

theorem search_similar_chunks_ranked:
  assumes "0 \<le> top_k"
    and "\<forall>emb results. encode svc [query] = Inr emb \<and>
           collection_query svc emb top_k (where_clause document_ids) = Inr results \<longrightarrow>
           reply_within top_k results"
  shows "int (length (search_similar_chunks svc query document_ids top_k)) \<le> top_k \<and>
         sorted_wrt (\<lambda>a b. similarity_score b \<le> similarity_score a)
           (search_similar_chunks svc query document_ids top_k) \<and>
         (\<forall>c\<in>set (search_similar_chunks svc query document_ids top_k).
            - 1 \<le> similarity_score c \<and> similarity_score c \<le> 1) \<and>
         (search_similar_chunks svc query document_ids top_k = [] \<or>
          (\<exists>emb results.
             encode svc [query] = Inr emb \<and>
             collection_query svc emb top_k (where_clause document_ids) = Inr results \<and>
             qr_distances results \<noteq> [] \<and>
             map similarity_score (search_similar_chunks svc query document_ids top_k) =
               map (\<lambda>d. 1 - d)
                 (take (length (search_similar_chunks svc query document_ids top_k))
                    (qr_distances results ! 0))))"
proof (cases "search_similar_chunks svc query document_ids top_k = []")
  case True
  with assms(1) show ?thesis by simp
next
  case False
  let ?found = "search_similar_chunks svc query document_ids top_k"
  from False search_similar_chunks_cases [of svc query document_ids top_k]
  obtain emb results where emb: "encode svc [query] = Inr emb"
    and res: "collection_query svc emb top_k (where_clause document_ids) = Inr results"
    and docs: "qr_documents results \<noteq> []" and dists: "qr_distances results \<noteq> []"
    and len: "length ?found = length (qr_documents results ! 0)"
    and le: "length ?found \<le> length (qr_distances results ! 0)"
    and score: "\<forall>i<length ?found. similarity_score (?found ! i) = 1 - qr_distances results ! 0 ! i"
    by blast
  from assms(2) emb res have ok: "reply_within top_k results" by blast
  from docs have "qr_documents results ! 0 \<in> set (qr_documents results)" by simp
  with ok have "int (length (qr_documents results ! 0)) \<le> top_k"
    by (simp add: reply_within_def list_all_iff)
  with len have bound: "int (length ?found) \<le> top_k" by simp
  from dists have "qr_distances results ! 0 \<in> set (qr_distances results)" by simp
  with ok have srt: "sorted (qr_distances results ! 0)"
    and rng: "\<forall>d\<in>set (qr_distances results ! 0). 0 \<le> d \<and> d \<le> 2"
    by (simp_all add: reply_within_def list_all_iff)
  have desc: "sorted_wrt (\<lambda>a b. similarity_score b \<le> similarity_score a) ?found"
  proof (unfold sorted_wrt_iff_nth_less, intro allI impI)
    fix i j assume ij: "i < j" "j < length ?found"
    with le have "qr_distances results ! 0 ! i \<le> qr_distances results ! 0 ! j"
      by (intro sorted_nth_mono [OF srt]) simp_all
    with score ij show "similarity_score (?found ! j) \<le> similarity_score (?found ! i)" by simp
  qed
  have within: "- 1 \<le> similarity_score c \<and> similarity_score c \<le> 1" if "c \<in> set ?found" for c
  proof -
    from that obtain i where i: "i < length ?found" "c = ?found ! i"
      by (auto simp: in_set_conv_nth)
    with le have "qr_distances results ! 0 ! i \<in> set (qr_distances results ! 0)" by simp
    with rng score i show ?thesis by force
  qed
  have "map similarity_score ?found =
          map (\<lambda>d. 1 - d) (take (length ?found) (qr_distances results ! 0))"
    using le score by (intro nth_equalityI) simp_all
  with bound desc within emb res dists show ?thesis by blast
qed

text \<open>The two rows at distances 1/2 and 3/2, asked for with \<open>top_k = 5\<close>.\<close>

theorem search_similar_chunks_ranked_witness:
  "(0::int) \<le> 5 \<and> reply_within 5 two_rows \<and>
   search_similar_chunks silent_model_services ''q'' None 5 = two_hits \<and>
   int (length two_hits) \<le> 5 \<and>
   sorted_wrt (\<lambda>a b. similarity_score b \<le> similarity_score a) two_hits \<and>
   list_all (\<lambda>c. - 1 \<le> similarity_score c \<and> similarity_score c \<le> 1) two_hits"
proof -
  have r: "reply_within 5 two_rows" by (simp add: reply_within_def two_rows_def)
  have h: "\<forall>emb results. encode silent_model_services [''q''] = Inr emb \<and>
           collection_query silent_model_services emb 5 (where_clause None) = Inr results \<longrightarrow>
           reply_within 5 results"
    using r by (simp add: silent_model_services_def)
  from search_similar_chunks_ranked [OF _ h] two_rows_found r
  show ?thesis by (simp add: list_all_iff)
qed

text \<open>
  Claim C6, as stated, fails: when chunks are found and the call to the generative model
  raises, \<open>generate_response\<close> catches the exception and returns its apology as the
  answer, so \<open>ask_question\<close> completes normally and the response carries the sources of
  the chunks found, not an empty list.
\<close>

theorem ask_question_sources_counterexample:
  "search_similar_chunks silent_model_services ''q'' None 5 = two_hits \<and>
   generate_content silent_model_services (full_prompt_of ''q'' (context_of two_hits)) =
     Inl (Exception ''model unavailable'') \<and>
   ask_question silent_model_services no_documents \<lparr>prompts_sent = []\<rparr> ''q'' None 5 10 12 0 =
     (Inr (apology_with_sources, no_documents),
      \<lparr>prompts_sent = [full_prompt_of ''q'' (context_of two_hits)]\<rparr>) \<and>
   resp_sources apology_with_sources \<noteq> []"
proof -
  have "ask_question silent_model_services no_documents \<lparr>prompts_sent = []\<rparr> ''q'' None 5 10 12 0 =
     (Inr (apology_with_sources, no_documents),
      \<lparr>prompts_sent = [full_prompt_of ''q'' (context_of two_hits)]\<rparr>)"
    using ask_question_model_raises [OF two_rows_found two_hits_nonempty silent_model_fails,
        of no_documents "\<lparr>prompts_sent = []\<rparr>" 10 12 0]
    by (simp add: apology_with_sources_def ids_or_empty_def no_documents_def)
  moreover have "resp_sources apology_with_sources \<noteq> []"
    using two_hits_nonempty by (simp add: apology_with_sources_def)
  ultimately show ?thesis using two_rows_found silent_model_fails by simp
qed

text \<open>
  Claim C6, amended. \<open>ask_question\<close> always returns a response and never raises. Whenever
  the search call or the generate call raises into it, the response is the one of the
  \<^verbatim>\<open>except\<close> clause: the answer reports the error, the sources are empty, the elapsed
  time is set, and the state is the one given. The two methods of this repository do not
  raise, they catch their own exceptions: if the embedding of the question or the index
  query raises, the search returns nothing, and the response is then the fixed
  no-information answer with no sources, with state and trace of model calls unchanged;
  if chunks are found and the call to the generative model raises, the response carries
  the fixed apology of \<open>generate_response\<close> with one source per chunk found, and it is
  appended to the chat history of every listed document like any other answer.
\<close>

theorem ask_question_degrades:
  "(\<exists>r w'. ask_question_with search generate s w question document_ids max_sources
             start_time end_time timestamp = (Inr r, w')) \<and>
   (\<forall>e. search question document_ids max_sources = Inl e \<longrightarrow>
      ask_question_with search generate s w question document_ids max_sources
          start_time end_time timestamp =
        (Inr (error_response question document_ids start_time end_time timestamp e, s), w) \<and>
      resp_sources (error_response question document_ids start_time end_time timestamp e) = [] \<and>
      resp_response_time (error_response question document_ids start_time end_time timestamp e) =
        end_time - start_time) \<and>
   (\<forall>found e w'.
      search question document_ids max_sources = Inr found \<and> found \<noteq> [] \<and>
      generate w question (context_of found) = (Inl e, w') \<longrightarrow>
      ask_question_with search generate s w question document_ids max_sources
          start_time end_time timestamp =
        (Inr (error_response question document_ids start_time end_time timestamp e, s), w')) \<and>
   ((\<exists>e. encode svc [question] = Inl e) \<or>
    (\<exists>emb e. encode svc [question] = Inr emb \<and>
       collection_query svc emb max_sources (where_clause document_ids) = Inl e) \<longrightarrow>
    search_similar_chunks svc question document_ids max_sources = []) \<and>
   (search_similar_chunks svc question document_ids max_sources = [] \<longrightarrow>
    ask_question svc s w question document_ids max_sources start_time end_time timestamp =
      (Inr (\<lparr>resp_question = question, resp_answer = no_information, resp_sources = [],
              resp_response_time = end_time - start_time, resp_timestamp = timestamp,
              resp_document_ids = ids_or_empty document_ids\<rparr>, s), w)) \<and>
   (\<forall>found e.
      search_similar_chunks svc question document_ids max_sources = found \<and> found \<noteq> [] \<and>
      generate_content svc (full_prompt_of question (context_of found)) = Inl e \<longrightarrow>
      ask_question svc s w question document_ids max_sources start_time end_time timestamp =
        (Inr (\<lparr>resp_question = question, resp_answer = apology,
                resp_sources = map source_of found,
                resp_response_time = end_time - start_time, resp_timestamp = timestamp,
                resp_document_ids = ids_or_empty document_ids\<rparr>,
              s\<lparr>chat_history :=
                  fold (append_history
                          \<lparr>resp_question = question, resp_answer = apology,
                           resp_sources = map source_of found,
                           resp_response_time = end_time - start_time,
                           resp_timestamp = timestamp,
                           resp_document_ids = ids_or_empty document_ids\<rparr>)
                    (ids_or_empty document_ids) (chat_history s)\<rparr>),
         w\<lparr>prompts_sent := prompts_sent w @ [full_prompt_of question (context_of found)]\<rparr>))"
proof (intro conjI)
  show "\<exists>r w'. ask_question_with search generate s w question document_ids max_sources
             start_time end_time timestamp = (Inr r, w')"
    by (rule ask_question_with_returns)
next
  show "\<forall>e. search question document_ids max_sources = Inl e \<longrightarrow>
      ask_question_with search generate s w question document_ids max_sources
          start_time end_time timestamp =
        (Inr (error_response question document_ids start_time end_time timestamp e, s), w) \<and>
      resp_sources (error_response question document_ids start_time end_time timestamp e) = [] \<and>
      resp_response_time (error_response question document_ids start_time end_time timestamp e) =
        end_time - start_time"
    by (simp add: ask_question_with_def ask_question_try_search_raises error_response_def)
next
  show "\<forall>found e w'.
      search question document_ids max_sources = Inr found \<and> found \<noteq> [] \<and>
      generate w question (context_of found) = (Inl e, w') \<longrightarrow>
      ask_question_with search generate s w question document_ids max_sources
          start_time end_time timestamp =
        (Inr (error_response question document_ids start_time end_time timestamp e, s), w')"
    by (simp add: ask_question_with_def ask_question_try_generate_raises)
next
  show "(\<exists>e. encode svc [question] = Inl e) \<or>
    (\<exists>emb e. encode svc [question] = Inr emb \<and>
       collection_query svc emb max_sources (where_clause document_ids) = Inl e) \<longrightarrow>
    search_similar_chunks svc question document_ids max_sources = []"
    using search_fails_empty by blast
next
  show "search_similar_chunks svc question document_ids max_sources = [] \<longrightarrow>
    ask_question svc s w question document_ids max_sources start_time end_time timestamp =
      (Inr (\<lparr>resp_question = question, resp_answer = no_information, resp_sources = [],
              resp_response_time = end_time - start_time, resp_timestamp = timestamp,
              resp_document_ids = ids_or_empty document_ids\<rparr>, s), w)"
    using ask_question_nothing_found by blast
next
  show "\<forall>found e.
      search_similar_chunks svc question document_ids max_sources = found \<and> found \<noteq> [] \<and>
      generate_content svc (full_prompt_of question (context_of found)) = Inl e \<longrightarrow>
      ask_question svc s w question document_ids max_sources start_time end_time timestamp =
        (Inr (\<lparr>resp_question = question, resp_answer = apology,
                resp_sources = map source_of found,
                resp_response_time = end_time - start_time, resp_timestamp = timestamp,
                resp_document_ids = ids_or_empty document_ids\<rparr>,
              s\<lparr>chat_history :=
                  fold (append_history
                          \<lparr>resp_question = question, resp_answer = apology,
                           resp_sources = map source_of found,
                           resp_response_time = end_time - start_time,
                           resp_timestamp = timestamp,
                           resp_document_ids = ids_or_empty document_ids\<rparr>)
                    (ids_or_empty document_ids) (chat_history s)\<rparr>),
         w\<lparr>prompts_sent := prompts_sent w @ [full_prompt_of question (context_of found)]\<rparr>)"
    using ask_question_model_raises by blast
qed

text \<open>
  On sample data: a search method that raises; a generate method that raises after two
  chunks were found; services whose embedding raises; and the two-row index beside a
  model that raises.
\<close>

theorem ask_question_degrades_witness:
  "raising_search ''q'' None 5 = Inl (Exception ''search unavailable'') \<and>
   ask_question_with raising_search raising_generate no_documents \<lparr>prompts_sent = []\<rparr>
       ''q'' None 5 10 12 0 =
     (Inr (error_response ''q'' None 10 12 0 (Exception ''search unavailable''), no_documents),
      \<lparr>prompts_sent = []\<rparr>) \<and>
   resp_answer (error_response ''q'' None 10 12 0 (Exception ''search unavailable'')) =
     ''I encountered an error while processing your question: search unavailable'' \<and>
   resp_sources (error_response ''q'' None 10 12 0 (Exception ''search unavailable'')) = [] \<and>
   finding_search ''q'' None 5 = Inr two_hits \<and> two_hits \<noteq> [] \<and>
   raising_generate \<lparr>prompts_sent = []\<rparr> ''q'' (context_of two_hits) =
     (Inl (Exception ''generation unavailable''), \<lparr>prompts_sent = [''q'']\<rparr>) \<and>
   ask_question_with finding_search raising_generate no_documents \<lparr>prompts_sent = []\<rparr>
       ''q'' None 5 10 12 0 =
     (Inr (error_response ''q'' None 10 12 0 (Exception ''generation unavailable''), no_documents),
      \<lparr>prompts_sent = [''q'']\<rparr>) \<and>
   encode offline_services [''q''] = Inl (Exception ''embedding model unavailable'') \<and>
   search_similar_chunks offline_services ''q'' None 5 = [] \<and>
   ask_question offline_services no_documents \<lparr>prompts_sent = []\<rparr> ''q'' None 5 10 12 0 =
     (Inr (nothing_found, no_documents), \<lparr>prompts_sent = []\<rparr>) \<and>
   search_similar_chunks silent_model_services ''q'' None 5 = two_hits \<and>
   generate_content silent_model_services (full_prompt_of ''q'' (context_of two_hits)) =
     Inl (Exception ''model unavailable'') \<and>
   ask_question silent_model_services no_documents \<lparr>prompts_sent = []\<rparr> ''q'' None 5 10 12 0 =
     (Inr (apology_with_sources, no_documents),
      \<lparr>prompts_sent = [full_prompt_of ''q'' (context_of two_hits)]\<rparr>)"
proof -
  have rs: "raising_search ''q'' None 5 = Inl (Exception ''search unavailable'')"
    by (simp add: raising_search_def)
  have fs: "finding_search ''q'' None 5 = Inr two_hits"
    by (simp add: finding_search_def)
  have rg: "raising_generate \<lparr>prompts_sent = []\<rparr> ''q'' (context_of two_hits) =
     (Inl (Exception ''generation unavailable''), \<lparr>prompts_sent = [''q'']\<rparr>)"
    by (simp add: raising_generate_def)
  note n = two_hits_nonempty
  note t1 = ask_question_degrades [of raising_search raising_generate no_documents
      "\<lparr>prompts_sent = []\<rparr>" "''q''" None 5 10 12 0 offline_services]
  note t2 = ask_question_degrades [of finding_search raising_generate no_documents
      "\<lparr>prompts_sent = []\<rparr>" "''q''" None 5 10 12 0 silent_model_services]
  from t1 rs have a1: "ask_question_with raising_search raising_generate no_documents
       \<lparr>prompts_sent = []\<rparr> ''q'' None 5 10 12 0 =
     (Inr (error_response ''q'' None 10 12 0 (Exception ''search unavailable''), no_documents),
      \<lparr>prompts_sent = []\<rparr>)" by blast
  from t2 fs n rg have a2: "ask_question_with finding_search raising_generate no_documents
       \<lparr>prompts_sent = []\<rparr> ''q'' None 5 10 12 0 =
     (Inr (error_response ''q'' None 10 12 0 (Exception ''generation unavailable''), no_documents),
      \<lparr>prompts_sent = [''q'']\<rparr>)" by blast
  from t1 offline_encode_fails
  have e: "search_similar_chunks offline_services ''q'' None 5 = []" by blast
  with t1 have a3: "ask_question offline_services no_documents \<lparr>prompts_sent = []\<rparr> ''q'' None 5 10 12 0 =
     (Inr (nothing_found, no_documents), \<lparr>prompts_sent = []\<rparr>)"
    by (simp add: nothing_found_def ids_or_empty_def)
  from t2 two_rows_found n silent_model_fails
  have "ask_question silent_model_services no_documents \<lparr>prompts_sent = []\<rparr> ''q'' None 5 10 12 0 =
        (Inr (\<lparr>resp_question = ''q'', resp_answer = apology,
                resp_sources = map source_of two_hits,
                resp_response_time = 12 - 10, resp_timestamp = 0,
                resp_document_ids = ids_or_empty None\<rparr>,
              no_documents\<lparr>chat_history :=
                  fold (append_history
                          \<lparr>resp_question = ''q'', resp_answer = apology,
                           resp_sources = map source_of two_hits,
                           resp_response_time = 12 - 10,
                           resp_timestamp = 0,
                           resp_document_ids = ids_or_empty None\<rparr>)
                    (ids_or_empty None) (chat_history no_documents)\<rparr>),
         \<lparr>prompts_sent = []\<rparr>\<lparr>prompts_sent :=
             prompts_sent \<lparr>prompts_sent = []\<rparr> @ [full_prompt_of ''q'' (context_of two_hits)]\<rparr>)"
    by blast
  then have a4: "ask_question silent_model_services no_documents \<lparr>prompts_sent = []\<rparr> ''q'' None 5 10 12 0 =
     (Inr (apology_with_sources, no_documents),
      \<lparr>prompts_sent = [full_prompt_of ''q'' (context_of two_hits)]\<rparr>)"
    by (simp add: apology_with_sources_def ids_or_empty_def no_documents_def)
  have m: "resp_answer (error_response ''q'' None 10 12 0 (Exception ''search unavailable'')) =
     ''I encountered an error while processing your question: search unavailable''"
    "resp_sources (error_response ''q'' None 10 12 0 (Exception ''search unavailable'')) = []"
    by (simp_all add: error_response_def message_of_def)
  from rs a1 m fs n rg a2 offline_encode_fails e a3 two_rows_found silent_model_fails a4
  show ?thesis by simp
qed

text \<open>
  Claim C7. With fewer than two identifiers \<open>compare_documents\<close> raises the validation
  error, and the trace of prompts sent to the generative model is the one it was given:
  no call leaves the program.
\<close>

theorem compare_documents_requires_two_ids:
  assumes "length document_ids < 2"
  shows "compare_documents svc s w document_ids =
           (Inl (Exception ''Document comparison failed: At least 2 documents are required for comparison''), w)"
  using assms by (simp add: compare_documents_def compare_documents_try_def message_of_def)

text \<open>A single identifier.\<close>

theorem compare_documents_requires_two_ids_witness:
  "length [''a''] < 2 \<and>
   compare_documents offline_services no_documents \<lparr>prompts_sent = []\<rparr> [''a''] =
     (Inl (Exception ''Document comparison failed: At least 2 documents are required for comparison''),
      \<lparr>prompts_sent = []\<rparr>)"
proof -
  have h: "length [''a''] < 2" by simp
  from compare_documents_requires_two_ids [OF h, of offline_services no_documents "\<lparr>prompts_sent = []\<rparr>"] h
  show ?thesis by simp
qed

text \<open>
  Claim C9. \<open>ask_question\<close> with the empty list of document identifiers returns what it
  returns with the identifiers left out: the filter handed to the index is \<open>None\<close>, the
  chat history is left as it was, and the response lists no document.
\<close>

theorem ask_question_empty_ids_as_omitted:
  "ask_question svc s w question (Some []) max_sources start_time end_time timestamp =
     ask_question svc s w question None max_sources start_time end_time timestamp \<and>
   where_clause (Some []) = None \<and>
   (\<exists>resp s' w'.
      ask_question svc s w question (Some []) max_sources start_time end_time timestamp =
        (Inr (resp, s'), w') \<and>
      chat_history s' = chat_history s \<and> resp_document_ids resp = [])"
  by (simp add: ask_question_def ask_question_with_def ask_question_try_def own_search_def
        own_generate_def search_similar_chunks_empty_ids where_clause_def ids_or_empty_def
        Let_def split_beta)

text \<open>
  Claim C10. For every document identifier, known or not, \<open>clear_chat_history\<close> returns
  \<open>True\<close>, \<open>get_chat_history\<close> then returns the empty list for it, and clearing a second
  time changes nothing.
\<close>

theorem clear_chat_history_idempotent:
  "fst (clear_chat_history s document_id) = True \<and>
   get_chat_history (snd (clear_chat_history s document_id)) document_id = [] \<and>
   clear_chat_history (snd (clear_chat_history s document_id)) document_id =
     clear_chat_history s document_id"
  by (auto simp: clear_chat_history_def get_chat_history_def split: option.splits)

end
